theory Spec2Isabelle
  imports Main
begin

section \<open>The host language: values, strings, namespaces\<close>

text \<open>
  \<^verbatim>\<open>oop.h\<close> is a header of preprocessor macros. A class body written with the macros
  expands to one SQF code block, the class's dispatcher, stored in a namespace under
  the class name. The theory models that expanded code block. The host primitives it
  uses (\<^verbatim>\<open>param\<close>, \<^verbatim>\<open>params\<close>, \<^verbatim>\<open>typeName\<close>, \<^verbatim>\<open>format\<close>, \<^verbatim>\<open>getVariable\<close>,
  \<^verbatim>\<open>setVariable\<close>, \<^verbatim>\<open>==\<close>, \<^verbatim>\<open>isEqualTo\<close>, \<^verbatim>\<open>exitWith\<close>, \<^verbatim>\<open>call\<close>) are modelled as the
  host documents them.
\<close>

datatype namespace = missionNamespace | uiNamespace | profileNamespace

text \<open>
  Code values. \<open>ClassCode i\<close> is the code block that class body number \<open>i\<close> of the
  program expands to. \<open>ObjCode objID cls ns\<close> is the code that \<^verbatim>\<open>"new"\<close> compiles:
  \<^verbatim>\<open>["objID", (param [0, "", [""]]), (param [1, nil]), 0] call (ns getVariable [cls, {nil}])\<close>.
  \<open>NilCode\<close> is \<^verbatim>\<open>{nil}\<close>.
\<close>

datatype code = ClassCode nat | ObjCode string string namespace | NilCode

text \<open>
  Values. A number of SQF is a single-precision float; \<open>Scalar k\<close> is the number whose
  value is the integer \<open>k\<close>, which covers the counters and access levels the header
  works with.
\<close>

datatype sqf_value =
    Scalar int
  | Str string
  | Bool bool
  | Array "sqf_value option list"
  | Code code
  | Object nat

fun typeName :: "sqf_value \<Rightarrow> string" where
  "typeName (Scalar _) = ''SCALAR''"
| "typeName (Str _) = ''STRING''"
| "typeName (Bool _) = ''BOOL''"
| "typeName (Array _) = ''ARRAY''"
| "typeName (Code _) = ''CODE''"
| "typeName (Object _) = ''OBJECT''"

text \<open>
  The operator \<^verbatim>\<open>==\<close> compares strings without regard to case; \<^verbatim>\<open>isEqualTo\<close> compares
  them exactly. Variable names in a namespace are not case sensitive either.
\<close>

definition toLower :: "char \<Rightarrow> char" where
  "toLower c =
     (case map_of (zip ''ABCDEFGHIJKLMNOPQRSTUVWXYZ'' ''abcdefghijklmnopqrstuvwxyz'') c of
        None \<Rightarrow> c
      | Some d \<Rightarrow> d)"

definition lower :: "string \<Rightarrow> string" where
  "lower s = map toLower s"

definition sqf_eq :: "string \<Rightarrow> string \<Rightarrow> bool" where
  "sqf_eq a b = (lower a = lower b)"

text \<open>
  The namespaces hold every global variable: the data of the objects and, under the
  class names, the code of the classes.
\<close>

type_synonym variables = "string \<Rightarrow> sqf_value option"

type_synonym world = "namespace \<Rightarrow> variables"

definition getVariable :: "world \<Rightarrow> namespace \<Rightarrow> string \<Rightarrow> sqf_value option" where
  "getVariable w space key = w space (lower key)"

text \<open>Storing nil removes the variable.\<close>

definition setVariable :: "world \<Rightarrow> namespace \<Rightarrow> string \<Rightarrow> sqf_value option \<Rightarrow> world" where
  "setVariable w space key v = w(space := (w space)(lower key := v))"

subsection \<open>Numbers\<close>

text \<open>
  The sum of two floats is the exact sum rounded to the nearest float, ties to the even
  mantissa. A float has a mantissa of 24 bits, so every integer of magnitude up to
  \<open>2^24 = 16777216\<close> is a float and larger ones are spaced \<open>ulp\<close> apart.
\<close>

fun ulp :: "nat \<Rightarrow> nat" where
  "ulp x = (if x < 16777216 then 1 else 2 * ulp (x div 2))"

declare ulp.simps [simp del]

definition f32_nat :: "nat \<Rightarrow> nat" where
  "f32_nat x =
     (let u = ulp x; q = x div u; r = x mod u in
      if 2 * r < u then q * u
      else if u < 2 * r then (q + 1) * u
      else if even q then q * u
      else (q + 1) * u)"

definition f32 :: "int \<Rightarrow> int" where
  "f32 k = (if k < 0 then - int (f32_nat (nat (- k))) else int (f32_nat (nat k)))"

text \<open>
  \<^verbatim>\<open>format\<close> prints a number with six significant digits: an integer of magnitude
  below \<open>1000000\<close> in full, a larger one in exponent form, as in \<^verbatim>\<open>1.23457e+006\<close>.
\<close>

definition digit_char :: "nat \<Rightarrow> char" where
  "digit_char d = ''0123456789'' ! d"

fun show_nat :: "nat \<Rightarrow> string" where
  "show_nat n = (if n < 10 then [digit_char n] else show_nat (n div 10) @ [digit_char (n mod 10)])"

declare show_nat.simps [simp del]

definition strip_zeros :: "string \<Rightarrow> string" where
  "strip_zeros s = rev (dropWhile (\<lambda>c. c = CHR ''0'') (rev s))"

definition pad3 :: "string \<Rightarrow> string" where
  "pad3 s = replicate (3 - length s) CHR ''0'' @ s"

definition exponent_form :: "nat \<Rightarrow> string" where
  "exponent_form a =
     (let e = length (show_nat a) - 1;
          h = 10 ^ (e - 5);
          q = a div h;
          r = a mod h;
          m = (if 2 * r < h then q else if h < 2 * r then q + 1 else if even q then q else q + 1);
          m' = (if m = 1000000 then 100000 else m);
          e' = (if m = 1000000 then e + 1 else e);
          ds = show_nat m';
          frac = strip_zeros (tl ds)
      in hd ds # (if frac = [] then [] else CHR ''.'' # frac) @ ''e+'' @ pad3 (show_nat e'))"

definition format_number :: "int \<Rightarrow> string" where
  "format_number k =
     (let a = nat \<bar>k\<bar>; sign = (if k < 0 then ''-'' else []) in
      if a < 1000000 then sign @ show_nat a else sign @ exponent_form a)"

subsection \<open>Parameters\<close>

text \<open>
  \<^verbatim>\<open>param [i, dft, [types]]\<close> on the call's argument: an argument that is not an array
  counts as an array of one element; a missing or nil element, or one of another type
  than expected, gives the default.
\<close>

fun param_list :: "sqf_value \<Rightarrow> sqf_value option list" where
  "param_list (Array xs) = xs"
| "param_list v = [Some v]"

definition param_any :: "sqf_value option list \<Rightarrow> nat \<Rightarrow> sqf_value option" where
  "param_any args i = (if i < length args then args ! i else None)"

definition param_str :: "sqf_value option list \<Rightarrow> nat \<Rightarrow> string" where
  "param_str args i = (case param_any args i of Some (Str s) \<Rightarrow> s | _ \<Rightarrow> [])"

definition param_num :: "sqf_value option list \<Rightarrow> nat \<Rightarrow> int" where
  "param_num args i = (case param_any args i of Some (Scalar k) \<Rightarrow> k | _ \<Rightarrow> 0)"

definition param_code :: "sqf_value option list \<Rightarrow> nat \<Rightarrow> code" where
  "param_code args i = (case param_any args i of Some (Code k) \<Rightarrow> k | _ \<Rightarrow> NilCode)"

section \<open>Internal definitions and macros\<close>

definition CONSTRUCTOR_METHOD :: string where
  "CONSTRUCTOR_METHOD = ''constructor''"

definition DECONSTRUCTOR_METHOD :: string where
  "DECONSTRUCTOR_METHOD = ''deconstructor''"

definition AUTO_INC_VAR :: "string \<Rightarrow> string" where
  "AUTO_INC_VAR cls = cls @ ''_IDAI''"

text \<open>\<^verbatim>\<open>GETVAR\<close> and \<^verbatim>\<open>GETSVAR\<close>: \<^verbatim>\<open>format ["%1_%2", _objClassID, var]\<close> and the same with \<^verbatim>\<open>_objClass\<close>.\<close>

definition GETVAR :: "string \<Rightarrow> string \<Rightarrow> string" where
  "GETVAR objClassID var = objClassID @ ''_'' @ var"

definition GETSVAR :: "string \<Rightarrow> string \<Rightarrow> string" where
  "GETSVAR objClass var = objClass @ ''_'' @ var"

text \<open>\<^verbatim>\<open>GET_AUTO_INC(className)\<close>: \<^verbatim>\<open>(NAMESPACE getVariable [AUTO_INC_VAR(className), 0])\<close>.\<close>

definition GET_AUTO_INC :: "world \<Rightarrow> namespace \<Rightarrow> string \<Rightarrow> sqf_value" where
  "GET_AUTO_INC w ns cls =
     (case getVariable w ns (AUTO_INC_VAR cls) of None \<Rightarrow> Scalar 0 | Some v \<Rightarrow> v)"

text \<open>The outcome of running code: a script error, or a value (nil is \<open>None\<close>) and the namespaces after.\<close>

datatype outcome = ScriptError | Return "sqf_value option" world

text \<open>The private variables of the dispatcher that a handler sees.\<close>

record call_ctx =
  objClassID :: string
  objMember :: string
  arg_this :: "sqf_value option"
  objAccess :: int
  objArgType :: string
  objClass :: string

text \<open>
  A member of a class body. \<^verbatim>\<open>FUNCTION(typeStr,fncName)\<close> is followed by the author's
  own code block, modelled as any function of the dispatcher's variables and the
  namespaces that returns or fails. \<^verbatim>\<open>VARIABLE\<close> and \<^verbatim>\<open>STATIC_VARIABLE\<close> store in the \<^verbatim>\<open>NAMESPACE\<close> of the
  class; the \<^verbatim>\<open>M_\<close>, \<^verbatim>\<open>UI_\<close> and \<^verbatim>\<open>P_\<close> variants are the same macros with the namespace
  fixed, so the namespace is an argument here.
\<close>

datatype member =
    FUNCTION string string "call_ctx \<Rightarrow> world \<Rightarrow> outcome"
  | VARIABLE namespace string string
  | STATIC_VARIABLE namespace string string

text \<open>
  A guard is one statement \<^verbatim>\<open>if ((_objAccess >= lvl) && cond) exitWith handler;\<close>:
  \<^verbatim>\<open>PRIVATE\<close>, \<^verbatim>\<open>PROTECTED\<close> or \<^verbatim>\<open>PUBLIC\<close> (that is \<^verbatim>\<open>CHECK_ACCESS(lvl)\<close>) before a member.
\<close>

datatype guard = Guard int member

definition PRIVATE :: int where "PRIVATE = 2"
definition PROTECTED :: int where "PROTECTED = 1"
definition PUBLIC :: int where "PUBLIC = 0"

definition CHECK_TYPE :: "string \<Rightarrow> call_ctx \<Rightarrow> bool" where
  "CHECK_TYPE typeStr ctx = (sqf_eq (objArgType ctx) typeStr \<or> sqf_eq typeStr ''ANY'')"

definition CHECK_NIL :: "call_ctx \<Rightarrow> bool" where
  "CHECK_NIL ctx = sqf_eq (objArgType ctx) []"

definition CHECK_MEMBER :: "string \<Rightarrow> call_ctx \<Rightarrow> bool" where
  "CHECK_MEMBER nm ctx = sqf_eq (objMember ctx) nm"

definition CHECK_VAR :: "string \<Rightarrow> string \<Rightarrow> call_ctx \<Rightarrow> bool" where
  "CHECK_VAR typeStr varName ctx = (CHECK_MEMBER varName ctx \<and> (CHECK_TYPE typeStr ctx \<or> CHECK_NIL ctx))"

text \<open>
  The accessor blocks:
  \<^verbatim>\<open>{if (isNil "_this") exitWith {space getVariable [key, nil]}; space setVariable [key, _this]}\<close>.
  On the second path the block's value is the value of \<^verbatim>\<open>setVariable\<close>, which is nothing.
\<close>

definition VAR_DFT_FUNC :: "string \<Rightarrow> namespace \<Rightarrow> call_ctx \<Rightarrow> world \<Rightarrow> outcome" where
  "VAR_DFT_FUNC varName space ctx w =
     (case arg_this ctx of
        None \<Rightarrow> Return (getVariable w space (GETVAR (objClassID ctx) varName)) w
      | Some v \<Rightarrow> Return None (setVariable w space (GETVAR (objClassID ctx) varName) (Some v)))"

definition SVAR_DFT_FUNC :: "string \<Rightarrow> namespace \<Rightarrow> call_ctx \<Rightarrow> world \<Rightarrow> outcome" where
  "SVAR_DFT_FUNC varName space ctx w =
     (case arg_this ctx of
        None \<Rightarrow> Return (getVariable w space (GETSVAR (objClass ctx) varName)) w
      | Some v \<Rightarrow> Return None (setVariable w space (GETSVAR (objClass ctx) varName) (Some v)))"

text \<open>The condition of a guard, and the code block after its \<^verbatim>\<open>exitWith\<close>.\<close>

fun guard_holds :: "guard \<Rightarrow> call_ctx \<Rightarrow> bool" where
  "guard_holds (Guard lvl (FUNCTION typeStr fncName body)) ctx =
     (objAccess ctx \<ge> lvl \<and> CHECK_MEMBER fncName ctx \<and> CHECK_TYPE typeStr ctx)"
| "guard_holds (Guard lvl (VARIABLE space typeStr varName)) ctx =
     (objAccess ctx \<ge> lvl \<and> CHECK_VAR typeStr varName ctx)"
| "guard_holds (Guard lvl (STATIC_VARIABLE space typeStr varName)) ctx =
     (objAccess ctx \<ge> lvl \<and> CHECK_VAR typeStr varName ctx)"

fun run_handler :: "guard \<Rightarrow> call_ctx \<Rightarrow> world \<Rightarrow> outcome" where
  "run_handler (Guard lvl (FUNCTION typeStr fncName body)) ctx w = body ctx w"
| "run_handler (Guard lvl (VARIABLE space typeStr varName)) ctx w = VAR_DFT_FUNC varName space ctx w"
| "run_handler (Guard lvl (STATIC_VARIABLE space typeStr varName)) ctx w = SVAR_DFT_FUNC varName space ctx w"

text \<open>
  The guards of a class body, in the order written. \<open>None\<close>: no \<^verbatim>\<open>exitWith\<close> fired and
  control reaches \<^verbatim>\<open>FINALIZE_CLASS\<close>.
\<close>

fun run_guards :: "guard list \<Rightarrow> call_ctx \<Rightarrow> world \<Rightarrow> outcome option" where
  "run_guards [] ctx w = None"
| "run_guards (g # gs) ctx w =
     (if guard_holds g ctx then Some (run_handler g ctx w) else run_guards gs ctx w)"

section \<open>Classes and the dispatcher\<close>

text \<open>
  What \<^verbatim>\<open>CLASS(className)\<close> or \<^verbatim>\<open>CLASS_EXTENDS(childClassName,parentClassName)\<close>, the
  guards and \<^verbatim>\<open>ENDCLASS\<close> expand to, with the \<^verbatim>\<open>NAMESPACE\<close> defined at that place.
  \<open>objParentClass\<close> is \<open>Some parentClassName\<close> for \<^verbatim>\<open>CLASS_EXTENDS\<close>, whose expansion has the
  line \<^verbatim>\<open>private _objParentClass = parentClassName;\<close>, and \<open>None\<close> for \<^verbatim>\<open>CLASS\<close>, whose
  expansion does not mention the variable before \<^verbatim>\<open>FINALIZE_CLASS\<close> reads it.
\<close>

record class_def =
  NAMESPACE :: namespace
  className :: string
  objParentClass :: "string option"
  guards :: "guard list"

text \<open>The class bodies of a program, numbered; \<open>ClassCode i\<close> is the code of body \<open>i\<close>.\<close>

type_synonym program = "nat \<Rightarrow> class_def"

text \<open>\<^verbatim>\<open>GETCLASS(className)\<close>: \<^verbatim>\<open>(NAMESPACE getVariable [className, {nil}])\<close>.\<close>

definition GETCLASS :: "world \<Rightarrow> namespace \<Rightarrow> string \<Rightarrow> sqf_value" where
  "GETCLASS w ns cls = (case getVariable w ns cls of None \<Rightarrow> Code NilCode | Some v \<Rightarrow> v)"

text \<open>
  \<^verbatim>\<open>NAMESPACE setVariable [className, {...}]\<close>, run when the class body \<open>i\<close> is loaded:
  registering overwrites what the name held.
\<close>

definition register :: "nat \<Rightarrow> class_def \<Rightarrow> world \<Rightarrow> world" where
  "register i c w = setVariable w (NAMESPACE c) (className c) (Some (Code (ClassCode i)))"

text \<open>The argument array \<^verbatim>\<open>[_objClassID, member, args, access]\<close> of a member call.\<close>

definition member_call :: "string \<Rightarrow> string \<Rightarrow> sqf_value option \<Rightarrow> int \<Rightarrow> sqf_value" where
  "member_call objID member args access =
     Array [Some (Str objID), Some (Str member), args, Some (Scalar access)]"

text \<open>
  A \<^verbatim>\<open>call\<close> runs the callee inside the scope of the caller, so the callee reads
  every local variable of its callers that it does not declare private itself. The
  dispatcher declares all its variables private but one: \<^verbatim>\<open>_objParentClass\<close> is declared
  by \<^verbatim>\<open>CLASS_EXTENDS\<close> only. A runner of calls \<open>k callee args env w\<close> therefore takes, besides
  the callee, its argument and the namespaces, the value \<open>env\<close> of \<^verbatim>\<open>_objParentClass\<close> in
  the caller's scope (\<open>None\<close> when it is not defined there).
\<close>

type_synonym runner = "sqf_value \<Rightarrow> sqf_value \<Rightarrow> string option \<Rightarrow> world \<Rightarrow> outcome option"

text \<open>\<^verbatim>\<open>CALLCLASS(className,member,args,access)\<close>.\<close>

definition CALLCLASS ::
  "runner \<Rightarrow> namespace \<Rightarrow> string \<Rightarrow> string \<Rightarrow> string \<Rightarrow> sqf_value option \<Rightarrow> int \<Rightarrow>
   string option \<Rightarrow> world \<Rightarrow> outcome option" where
  "CALLCLASS k ns cls objID member args access env w =
     k (GETCLASS w ns cls) (member_call objID member args access) env w"

text \<open>
  The dispatcher's private variables after its \<^verbatim>\<open>params\<close> line:
  \<^verbatim>\<open>_objArgType = [typeName _this, ""] select isNil "_this"\<close> and \<^verbatim>\<open>_objClass = className\<close>.
\<close>

definition dispatch_ctx :: "class_def \<Rightarrow> string \<Rightarrow> string \<Rightarrow> sqf_value option \<Rightarrow> int \<Rightarrow> call_ctx" where
  "dispatch_ctx c objID member this access =
     \<lparr>objClassID = objID, objMember = member, arg_this = this, objAccess = access,
      objArgType = (case this of None \<Rightarrow> [] | Some v \<Rightarrow> typeName v),
      objClass = className c\<rparr>"

text \<open>
  The value of \<^verbatim>\<open>_objParentClass\<close> that \<^verbatim>\<open>FINALIZE_CLASS\<close> reads: the class's own when it
  was made with \<^verbatim>\<open>CLASS_EXTENDS\<close>, otherwise the caller's.
\<close>

definition seen_parent :: "class_def \<Rightarrow> string option \<Rightarrow> string option" where
  "seen_parent c env = (case objParentClass c of Some p \<Rightarrow> Some p | None \<Rightarrow> env)"

text \<open>
  The code block that \<^verbatim>\<open>INSTANTIATE_CLASS\<close>, the guards and \<^verbatim>\<open>FINALIZE_CLASS\<close> expand
  to, one definition for each \<^verbatim>\<open>exitWith\<close> block. \<open>ps\<close> is the argument array. The three
  control operations come before the line that declares \<^verbatim>\<open>_objParentClass\<close>, so their
  nested calls run with the caller's value \<open>env\<close>.
\<close>

text \<open>
  \<^verbatim>\<open>"new"\<close>: increment the counter, compile the object's code, call the constructor
  through it, return the code. The second \<^verbatim>\<open>GET_AUTO_INC\<close> reads back the number just
  stored. Adding 1 to a counter variable that holds no number is a script error.
\<close>

definition new_object ::
  "runner \<Rightarrow> class_def \<Rightarrow> sqf_value option list \<Rightarrow> string option \<Rightarrow> world \<Rightarrow> outcome option" where
  "new_object k c ps env w =
     (case GET_AUTO_INC w (NAMESPACE c) (className c) of
        Scalar i \<Rightarrow>
          (let w1 = setVariable w (NAMESPACE c) (AUTO_INC_VAR (className c)) (Some (Scalar (f32 (i + 1))));
               objCode = ObjCode (className c @ ''_'' @ format_number (f32 (i + 1))) (className c) (NAMESPACE c)
           in case k (Code objCode) (Array [Some (Str CONSTRUCTOR_METHOD), param_any ps 1]) env w1 of
                None \<Rightarrow> None
              | Some ScriptError \<Rightarrow> Some ScriptError
              | Some (Return r w2) \<Rightarrow> Some (Return (Some (Code objCode)) w2))
      | _ \<Rightarrow> Some ScriptError)"

text \<open>\<^verbatim>\<open>"delete"\<close>: \<^verbatim>\<open>[DECONSTRUCTOR_METHOD, (param [2, nil])] call (param [1, {nil}, [{}]])\<close>.\<close>

definition delete_object ::
  "runner \<Rightarrow> sqf_value option list \<Rightarrow> string option \<Rightarrow> world \<Rightarrow> outcome option" where
  "delete_object k ps env w =
     k (Code (param_code ps 1)) (Array [Some (Str DECONSTRUCTOR_METHOD), param_any ps 2]) env w"

text \<open>
  \<^verbatim>\<open>"static"\<close>:
  \<^verbatim>\<open>[className, (param [1, "", [""]]), (param [2, nil]), 0] call GETCLASS(className)\<close>.
\<close>

definition static_call ::
  "runner \<Rightarrow> class_def \<Rightarrow> sqf_value option list \<Rightarrow> string option \<Rightarrow> world \<Rightarrow> outcome option" where
  "static_call k c ps env w =
     k (GETCLASS w (NAMESPACE c) (className c))
       (member_call (className c) (param_str ps 1) (param_any ps 2) 0) env w"

text \<open>
  A member call: the \<^verbatim>\<open>params\<close> line, the exit on an empty member name, the guards in
  the order written, and \<^verbatim>\<open>FINALIZE_CLASS\<close>:
  \<^verbatim>\<open>if (!isNil "_objParentClass") exitWith {CALLCLASS(_objParentClass,_objMember,_this,1)};\<close>,
  after which the block ends with no value. The forwarded call runs inside this scope,
  so it sees the value of \<^verbatim>\<open>_objParentClass\<close> that was read.
\<close>

definition member_dispatch ::
  "runner \<Rightarrow> class_def \<Rightarrow> string \<Rightarrow> sqf_value option list \<Rightarrow> string option \<Rightarrow> world \<Rightarrow>
   outcome option" where
  "member_dispatch k c objID ps env w =
     (let member = param_str ps 1; this = param_any ps 2; access = param_num ps 3 in
      if member = [] then Some (Return None w)
      else
        (case run_guards (guards c) (dispatch_ctx c objID member this access) w of
           Some r \<Rightarrow> Some r
         | None \<Rightarrow>
             (case seen_parent c env of
                None \<Rightarrow> Some (Return None w)
              | Some p \<Rightarrow> CALLCLASS k (NAMESPACE c) p objID member this 1 (Some p) w)))"

definition class_code ::
  "runner \<Rightarrow> class_def \<Rightarrow> sqf_value \<Rightarrow> string option \<Rightarrow> world \<Rightarrow> outcome option" where
  "class_code k c args env w =
     (let ps = param_list args; objID = param_str ps 0 in
      if objID = [] then Some (Return None w)
      else if sqf_eq objID ''new'' then new_object k c ps env w
      else if sqf_eq objID ''delete'' then delete_object k ps env w
      else if sqf_eq objID ''static'' then static_call k c ps env w
      else member_dispatch k c objID ps env w)"

text \<open>
  \<^verbatim>\<open>args call callee\<close>. The first argument bounds the depth of nested calls; \<open>None\<close>
  means the bound was reached before the call returned. Calling a value that is not
  code is a script error. The code of an object looks its class up when it is called.
\<close>

primrec sqf_call :: "nat \<Rightarrow> program \<Rightarrow> runner" where
  "sqf_call 0 prog callee args env w = None"
| "sqf_call (Suc n) prog callee args env w =
     (case callee of
        Code NilCode \<Rightarrow> Some (Return None w)
      | Code (ClassCode i) \<Rightarrow> class_code (sqf_call n prog) (prog i) args env w
      | Code (ObjCode objID cls ns) \<Rightarrow>
          sqf_call n prog (GETCLASS w ns cls)
            (member_call objID (param_str (param_list args) 0) (param_any (param_list args) 1) 0) env w
      | _ \<Rightarrow> Some ScriptError)"

text \<open>
  Calling class \<open>c\<close> itself: its code block, with nested calls up to depth \<open>n\<close>. \<open>env\<close> is
  the value of \<^verbatim>\<open>_objParentClass\<close> where the call is made: \<open>None\<close> for a caller outside
  any class, the class's seen parent for a handler that calls on.
\<close>

definition class_call ::
  "nat \<Rightarrow> program \<Rightarrow> class_def \<Rightarrow> sqf_value \<Rightarrow> string option \<Rightarrow> world \<Rightarrow> outcome option" where
  "class_call n prog c args env w = class_code (sqf_call n prog) c args env w"

section \<open>Vocabulary of the properties\<close>

text \<open>
  The first elements the dispatcher treats specially: the empty string and the three
  control operations. Any other first element makes the call a member call.
\<close>

definition control_word :: "string \<Rightarrow> bool" where
  "control_word objID =
     (objID = [] \<or> sqf_eq objID ''new'' \<or> sqf_eq objID ''delete'' \<or> sqf_eq objID ''static'')"

text \<open>No guard of the class holds for a member call.\<close>

definition unmatched :: "class_def \<Rightarrow> string \<Rightarrow> string \<Rightarrow> sqf_value option \<Rightarrow> int \<Rightarrow> bool" where
  "unmatched c objID member this access =
     list_all (\<lambda>g. \<not> guard_holds g (dispatch_ctx c objID member this access)) (guards c)"

text \<open>The guard that serves a member call: the first one, in the order written, that holds.\<close>

definition serving_guard ::
  "class_def \<Rightarrow> string \<Rightarrow> string \<Rightarrow> sqf_value option \<Rightarrow> int \<Rightarrow> guard option" where
  "serving_guard c objID member this access =
     find (\<lambda>g. guard_holds g (dispatch_ctx c objID member this access)) (guards c)"

text \<open>The access level a guard asks for.\<close>

fun guard_level :: "guard \<Rightarrow> int" where
  "guard_level (Guard lvl mem) = lvl"

text \<open>The member name a guard compares with.\<close>

fun guard_name :: "guard \<Rightarrow> string" where
  "guard_name (Guard lvl (FUNCTION typeStr fncName body)) = fncName"
| "guard_name (Guard lvl (VARIABLE space typeStr varName)) = varName"
| "guard_name (Guard lvl (STATIC_VARIABLE space typeStr varName)) = varName"


text \<open>The class body \<open>i\<close> of the program is \<open>c\<close>, and its code is what the name of \<open>c\<close> holds.\<close>

definition stored_as :: "world \<Rightarrow> program \<Rightarrow> class_def \<Rightarrow> nat \<Rightarrow> bool" where
  "stored_as w prog c i =
     (prog i = c \<and> getVariable w (NAMESPACE c) (className c) = Some (Code (ClassCode i)))"

text \<open>
  What \<^verbatim>\<open>"new"\<close> makes when the counter of the class holds \<open>i\<close>: the identifier of the new
  object, and the namespaces with the incremented counter stored.
\<close>

definition object_id :: "class_def \<Rightarrow> int \<Rightarrow> string" where
  "object_id c i = className c @ ''_'' @ format_number (f32 (i + 1))"

definition counter_set :: "world \<Rightarrow> class_def \<Rightarrow> int \<Rightarrow> world" where
  "counter_set w c i =
     setVariable w (NAMESPACE c) (AUTO_INC_VAR (className c)) (Some (Scalar (f32 (i + 1))))"

text \<open>
  \<^verbatim>\<open>["new"] call c\<close> made \<open>m\<close> times in a row from outside any class, each with nested
  calls up to depth \<open>d\<close>: the namespaces after the last call, \<open>None\<close> when one of the calls
  fails or does not return within the depth.
\<close>

primrec repeat_new :: "nat \<Rightarrow> nat \<Rightarrow> program \<Rightarrow> class_def \<Rightarrow> world \<Rightarrow> world option" where
  "repeat_new 0 d prog c w = Some w"
| "repeat_new (Suc m) d prog c w =
     (case class_call d prog c (Array [Some (Str ''new'')]) None w of
        Some (Return r w1) \<Rightarrow> repeat_new m d prog c w1
      | _ \<Rightarrow> None)"

section \<open>Example classes\<close>

text \<open>The namespaces before anything is stored.\<close>

definition no_vars :: world where
  "no_vars = (\<lambda>space key. None)"

text \<open>
  The class of the header's own example. Its bodies reach the two variables through
  \<^verbatim>\<open>MEMBER\<close>, a call of the class by name at access level 2 that the variable's guard
  serves when the name holds this class; the bodies here are what the accessor blocks
  do then. Each body runs only when its guard holds, so \<^verbatim>\<open>_this\<close> is an object in the
  constructor, nil in \<^verbatim>\<open>getUnit\<close> and \<^verbatim>\<open>setUnit\<close>, and a string in the deconstructor.
  \<^verbatim>\<open>getUnit\<close> is \<^verbatim>\<open>FUNC_GETVAR("currentUnit")\<close>, that is \<^verbatim>\<open>{MEMBER("currentUnit",nil)}\<close>, and
  \<^verbatim>\<open>setUnit\<close> is \<^verbatim>\<open>{MEMBER("currentUnit",_this);}\<close>. \<^verbatim>\<open>hint\<close> has no value and no effect on
  the namespaces.
\<close>

text \<open>
  \<^verbatim>\<open>MEMBER("currentUnit",_this); private _unitCount = MEMBER("unitCount",nil);\<close>
  \<^verbatim>\<open>if (isNil "_unitCount") then {_unitCount = 0}; _unitCount = _unitCount + 1;\<close>
  \<^verbatim>\<open>MEMBER("unitCount",_unitCount);\<close>. Adding 1 to a value that is not a number is a
  script error.
\<close>

definition PlayerInfo_constructor :: "call_ctx \<Rightarrow> world \<Rightarrow> outcome" where
  "PlayerInfo_constructor ctx w =
     (case VAR_DFT_FUNC ''currentUnit'' missionNamespace ctx w of
        ScriptError \<Rightarrow> ScriptError
      | Return r w1 \<Rightarrow>
          (case getVariable w1 missionNamespace (GETSVAR (objClass ctx) ''unitCount'') of
             None \<Rightarrow>
               Return None (setVariable w1 missionNamespace (GETSVAR (objClass ctx) ''unitCount'')
                              (Some (Scalar (f32 (0 + 1)))))
           | Some (Scalar k) \<Rightarrow>
               Return None (setVariable w1 missionNamespace (GETSVAR (objClass ctx) ''unitCount'')
                              (Some (Scalar (f32 (k + 1)))))
           | Some v \<Rightarrow> ScriptError))"

text \<open>
  \<^verbatim>\<open>DELETE_VARIABLE("currentUnit"); private _unitCount = MEMBER("unitCount",nil);\<close>
  \<^verbatim>\<open>_unitCount = _unitCount - 1; MEMBER("unitCount",_unitCount); hint _this;\<close>. When no
  count is stored, \<^verbatim>\<open>_unitCount\<close> stays nil and the last \<^verbatim>\<open>MEMBER\<close> is a read.
\<close>

definition PlayerInfo_deconstructor :: "call_ctx \<Rightarrow> world \<Rightarrow> outcome" where
  "PlayerInfo_deconstructor ctx w =
     (let w1 = setVariable w missionNamespace (GETVAR (objClassID ctx) ''currentUnit'') None in
      case getVariable w1 missionNamespace (GETSVAR (objClass ctx) ''unitCount'') of
        None \<Rightarrow> Return None w1
      | Some (Scalar k) \<Rightarrow>
          Return None (setVariable w1 missionNamespace (GETSVAR (objClass ctx) ''unitCount'')
                         (Some (Scalar (f32 (k - 1)))))
      | Some v \<Rightarrow> ScriptError)"

definition PlayerInfo :: class_def where
  "PlayerInfo =
     \<lparr>NAMESPACE = missionNamespace, className = ''PlayerInfo'', objParentClass = None,
      guards =
        [Guard PRIVATE (STATIC_VARIABLE missionNamespace ''scalar'' ''unitCount''),
         Guard PRIVATE (VARIABLE missionNamespace ''object'' ''currentUnit''),
         Guard PUBLIC (FUNCTION ''object'' ''constructor'' PlayerInfo_constructor),
         Guard PUBLIC (FUNCTION [] ''getUnit'' (\<lambda>ctx w.
           Return (getVariable w missionNamespace (GETVAR (objClassID ctx) ''currentUnit'')) w)),
         Guard PUBLIC (FUNCTION [] ''setUnit'' (VAR_DFT_FUNC ''currentUnit'' missionNamespace)),
         Guard PUBLIC (FUNCTION ''string'' ''deconstructor'' PlayerInfo_deconstructor)]\<rparr>"

text \<open>A program that consists of this class, and the namespaces after it is loaded.\<close>

definition player_program :: program where
  "player_program = (\<lambda>i. PlayerInfo)"

definition player_world :: world where
  "player_world = register 0 PlayerInfo no_vars"


text \<open>
  A class whose members share a name: a private catch-all, a public function for a
  string argument, a variable, and a public catch-all declared with other letter case.
\<close>

definition Greeter :: class_def where
  "Greeter =
     \<lparr>NAMESPACE = missionNamespace, className = ''Greeter'', objParentClass = None,
      guards =
        [Guard PRIVATE (FUNCTION ''ANY'' ''hello'' (\<lambda>ctx w. Return (Some (Str ''private'')) w)),
         Guard PUBLIC (FUNCTION ''string'' ''hello'' (\<lambda>ctx w. Return (Some (Str ''first'')) w)),
         Guard PUBLIC (VARIABLE missionNamespace ''scalar'' ''volume''),
         Guard PUBLIC (FUNCTION ''ANY'' ''HELLO'' (\<lambda>ctx w. Return (Some (Str ''second'')) w))]\<rparr>"

definition greeter_program :: program where
  "greeter_program = (\<lambda>i. Greeter)"

definition greeter_world :: world where
  "greeter_world = register 0 Greeter no_vars"

text \<open>
  Three classes in a line of descent: \<^verbatim>\<open>CLASS("Shape")\<close>, \<^verbatim>\<open>CLASS_EXTENDS("Circle","Shape")\<close>
  and \<^verbatim>\<open>CLASS_EXTENDS("Dot","Circle")\<close>. The constructor of the first is protected and
  its deconstructor private.
\<close>

definition Shape :: class_def where
  "Shape =
     \<lparr>NAMESPACE = missionNamespace, className = ''Shape'', objParentClass = None,
      guards =
        [Guard PROTECTED (FUNCTION ''ANY'' ''constructor'' (\<lambda>ctx w.
           Return None (setVariable w missionNamespace (GETVAR (objClassID ctx) ''made'') (Some (Bool True))))),
         Guard PUBLIC (FUNCTION [] ''describe'' (\<lambda>ctx w. Return (Some (Str ''shape'')) w)),
         Guard PRIVATE (VARIABLE missionNamespace ''scalar'' ''serial''),
         Guard PRIVATE (FUNCTION ''ANY'' ''deconstructor'' (\<lambda>ctx w.
           Return None (setVariable w missionNamespace (GETVAR (objClassID ctx) ''made'') None)))]\<rparr>"

definition Circle :: class_def where
  "Circle =
     \<lparr>NAMESPACE = missionNamespace, className = ''Circle'', objParentClass = Some ''Shape'',
      guards = [Guard PUBLIC (VARIABLE missionNamespace ''scalar'' ''radius'')]\<rparr>"

definition Dot :: class_def where
  "Dot =
     \<lparr>NAMESPACE = missionNamespace, className = ''Dot'', objParentClass = Some ''Circle'',
      guards = []\<rparr>"

definition shape_program :: program where
  "shape_program = (\<lambda>i. if i = 0 then Shape else if i = 1 then Circle else Dot)"

definition shape_world :: world where
  "shape_world = register 2 Dot (register 1 Circle (register 0 Shape no_vars))"





section \<open>Basic facts\<close>

declare sqf_call.simps(2) [simp del]

text \<open>The table of \<open>toLower\<close>, letter by letter.\<close>

lemma toLower_table:
  "toLower c =
     (
      if c = CHR ''A'' then CHR ''a'' else
      if c = CHR ''B'' then CHR ''b'' else
      if c = CHR ''C'' then CHR ''c'' else
      if c = CHR ''D'' then CHR ''d'' else
      if c = CHR ''E'' then CHR ''e'' else
      if c = CHR ''F'' then CHR ''f'' else
      if c = CHR ''G'' then CHR ''g'' else
      if c = CHR ''H'' then CHR ''h'' else
      if c = CHR ''I'' then CHR ''i'' else
      if c = CHR ''J'' then CHR ''j'' else
      if c = CHR ''K'' then CHR ''k'' else
      if c = CHR ''L'' then CHR ''l'' else
      if c = CHR ''M'' then CHR ''m'' else
      if c = CHR ''N'' then CHR ''n'' else
      if c = CHR ''O'' then CHR ''o'' else
      if c = CHR ''P'' then CHR ''p'' else
      if c = CHR ''Q'' then CHR ''q'' else
      if c = CHR ''R'' then CHR ''r'' else
      if c = CHR ''S'' then CHR ''s'' else
      if c = CHR ''T'' then CHR ''t'' else
      if c = CHR ''U'' then CHR ''u'' else
      if c = CHR ''V'' then CHR ''v'' else
      if c = CHR ''W'' then CHR ''w'' else
      if c = CHR ''X'' then CHR ''x'' else
      if c = CHR ''Y'' then CHR ''y'' else
      if c = CHR ''Z'' then CHR ''z'' else
      c)"
  by (simp add: toLower_def)

lemmas string_defs = lower_def toLower_table sqf_eq_def

lemmas host_defs =
  lower_def toLower_table sqf_eq_def getVariable_def setVariable_def param_any_def param_str_def
  param_num_def param_code_def

lemmas macro_defs =
  CONSTRUCTOR_METHOD_def DECONSTRUCTOR_METHOD_def AUTO_INC_VAR_def GETVAR_def GETSVAR_def
  GET_AUTO_INC_def PRIVATE_def PROTECTED_def PUBLIC_def CHECK_TYPE_def CHECK_NIL_def
  CHECK_MEMBER_def CHECK_VAR_def VAR_DFT_FUNC_def SVAR_DFT_FUNC_def

lemma param_member_call [simp]:
  "param_str (param_list (member_call objID member this access)) 0 = objID"
  "param_str (param_list (member_call objID member this access)) (Suc 0) = member"
  "param_any (param_list (member_call objID member this access)) 2 = this"
  "param_num (param_list (member_call objID member this access)) 3 = access"
  by (simp_all add: member_call_def param_str_def param_any_def param_num_def)

lemma run_guards_None: "run_guards gs ctx w = None \<longleftrightarrow> list_all (\<lambda>g. \<not> guard_holds g ctx) gs"
  by (induction gs) auto

lemma run_guards_first:
  "list_all (\<lambda>g. \<not> guard_holds g ctx) pre \<Longrightarrow> guard_holds g ctx \<Longrightarrow>
   run_guards (pre @ g # post) ctx w = Some (run_handler g ctx w)"
  by (induction pre) auto


lemma run_guards_after_match:
  "guard_holds g ctx \<Longrightarrow> run_guards (pre @ g # a) ctx w = run_guards (pre @ g # b) ctx w"
  by (induction pre) auto

lemma run_guards_find:
  "run_guards gs ctx w = map_option (\<lambda>g. run_handler g ctx w) (find (\<lambda>g. guard_holds g ctx) gs)"
  by (induction gs) auto

lemma dispatch_ctx_guards [simp]:
  "dispatch_ctx (c\<lparr>guards := gs\<rparr>) objID member this access = dispatch_ctx c objID member this access"
  by (simp add: dispatch_ctx_def)

lemma seen_parent_guards [simp]: "seen_parent (c\<lparr>guards := gs\<rparr>) env = seen_parent c env"
  by (simp add: seen_parent_def)

lemma objAccess_dispatch_ctx [simp]: "objAccess (dispatch_ctx c objID member this access) = access"
  by (simp add: dispatch_ctx_def)

lemma objMember_dispatch_ctx [simp]: "objMember (dispatch_ctx c objID member this access) = member"
  by (simp add: dispatch_ctx_def)

text \<open>What a member call does: the guards, then \<^verbatim>\<open>FINALIZE_CLASS\<close>.\<close>

lemma class_code_member:
  assumes "\<not> control_word objID" and "member \<noteq> []"
  shows "class_code k c (member_call objID member this access) env w =
     (case run_guards (guards c) (dispatch_ctx c objID member this access) w of
        Some r \<Rightarrow> Some r
      | None \<Rightarrow>
          (case seen_parent c env of
             None \<Rightarrow> Some (Return None w)
           | Some p \<Rightarrow> k (GETCLASS w (NAMESPACE c) p) (member_call objID member this 1) (Some p) w))"
  using assms
  by (simp add: class_code_def member_dispatch_def control_word_def Let_def CALLCLASS_def
      split: option.split)

lemmas class_call_member = class_code_member[where k = "sqf_call n prog" for n prog, folded class_call_def]

lemma class_call_served:
  assumes "\<not> control_word objID" and "member \<noteq> []"
    and "serving_guard c objID member this access = Some g"
  shows "class_call n prog c (member_call objID member this access) env w
         = Some (run_handler g (dispatch_ctx c objID member this access) w)"
  using assms by (simp add: class_call_member run_guards_find serving_guard_def)

lemma class_call_unmatched:
  assumes "\<not> control_word objID" and "member \<noteq> []"
    and "unmatched c objID member this access"
  shows "class_call n prog c (member_call objID member this access) env w =
     (case seen_parent c env of
        None \<Rightarrow> Some (Return None w)
      | Some p \<Rightarrow> sqf_call n prog (GETCLASS w (NAMESPACE c) p) (member_call objID member this 1) (Some p) w)"
  using assms(3) run_guards_None[of "guards c" "dispatch_ctx c objID member this access" w]
  by (simp add: class_call_member[OF assms(1,2)] unmatched_def)


text \<open>Calling the code of a class body.\<close>

lemma sqf_call_class:
  "sqf_call (Suc n) prog (Code (ClassCode i)) args env w = class_call n prog (prog i) args env w"
  by (simp add: sqf_call.simps(2) class_call_def)


lemma get_set_same [simp]: "getVariable (setVariable w space key v) space key = v"
  by (simp add: getVariable_def setVariable_def)

lemma get_set_other:
  "space' \<noteq> space \<or> lower key' \<noteq> lower key \<Longrightarrow>
   getVariable (setVariable w space key v) space' key' = getVariable w space' key'"
  by (auto simp: getVariable_def setVariable_def)

lemma lower_append [simp]: "lower (a @ b) = lower a @ lower b"
  by (simp add: lower_def)

lemma GETVAR_eq: "lower (GETVAR a v) = lower (GETVAR b v) \<longleftrightarrow> sqf_eq a b"
  by (simp add: GETVAR_def sqf_eq_def)



lemma sqf_eq_new: "sqf_eq x ''new'' \<Longrightarrow> x \<noteq> []"
  by (auto simp: sqf_eq_def lower_def toLower_table)

section \<open>The two early exits\<close>

text \<open>
  C10. A call whose first element is the empty string (or is missing, or is not a
  string) returns nil with the namespaces unchanged. So does a member call, one whose
  first element is not a control operation, whose member name is empty. The result is
  the same for every class, program and caller, whatever guards and parent the class
  has and whatever the namespaces hold, and needs no nested call.
\<close>

theorem empty_identifier_or_member_returns_nil:
  "(param_str (param_list args) 0 = [] \<longrightarrow>
      class_call n prog c args env w = Some (Return None w)) \<and>
   (\<not> control_word (param_str (param_list args) 0) \<and> param_str (param_list args) (Suc 0) = [] \<longrightarrow>
      class_call n prog c args env w = Some (Return None w))"
  by (simp add: class_call_def class_code_def member_dispatch_def control_word_def Let_def)

theorem empty_identifier_or_member_returns_nil_witness:
  "param_str (param_list (Array [Some (Str []), Some (Str ''getUnit'')])) 0 = [] \<and>
   class_call (Suc 0) player_program PlayerInfo (Array [Some (Str []), Some (Str ''getUnit'')]) None player_world
     = Some (Return None player_world) \<and>
   \<not> control_word (param_str (param_list (member_call ''PlayerInfo_1'' [] None 0)) 0) \<and>
   param_str (param_list (member_call ''PlayerInfo_1'' [] None 0)) (Suc 0) = [] \<and>
   class_call (Suc 0) player_program PlayerInfo (member_call ''PlayerInfo_1'' [] None 0) None player_world
     = Some (Return None player_world)"
proof -
  have a: "param_str (param_list (Array [Some (Str []), Some (Str ''getUnit'')])) 0 = []"
    by (simp add: param_str_def param_any_def)
  have b: "\<not> control_word (param_str (param_list (member_call ''PlayerInfo_1'' [] None 0)) 0)"
    by (simp add: control_word_def string_defs)
  have c: "param_str (param_list (member_call ''PlayerInfo_1'' [] None 0)) (Suc 0) = []"
    by simp
  from a b c
    empty_identifier_or_member_returns_nil
      [of "Array [Some (Str []), Some (Str ''getUnit'')]" "Suc 0" player_program PlayerInfo None player_world]
    empty_identifier_or_member_returns_nil
      [of "member_call ''PlayerInfo_1'' [] None 0" "Suc 0" player_program PlayerInfo None player_world]
  show ?thesis by blast
qed

section \<open>First match wins\<close>

text \<open>
  C2. In a member call, when two guards \<open>g1\<close> (declared earlier) and \<open>g2\<close> (declared later)
  of the class both hold for the call's member name, argument type and access level,
  and no guard declared before \<open>g1\<close> holds, the call returns what the handler of \<open>g1\<close>
  returns. The outcome does not depend on anything declared after \<open>g1\<close>: replacing the
  rest of the chain, \<open>g2\<close> included, by any other guards leaves it the same.
\<close>

theorem first_matching_guard_wins:
  assumes "\<not> control_word objID" and "member \<noteq> []"
    and "guards c = pre @ g1 # mid @ g2 # post"
    and "guard_holds g1 (dispatch_ctx c objID member this access)"
    and "guard_holds g2 (dispatch_ctx c objID member this access)"
  shows "(list_all (\<lambda>g. \<not> guard_holds g (dispatch_ctx c objID member this access)) pre \<longrightarrow>
           class_call n prog c (member_call objID member this access) env w
             = Some (run_handler g1 (dispatch_ctx c objID member this access) w)) \<and>
         (\<forall>later. class_call n prog (c\<lparr>guards := pre @ g1 # later\<rparr>) (member_call objID member this access) env w
             = class_call n prog c (member_call objID member this access) env w)"
proof (intro conjI impI allI)
  assume "list_all (\<lambda>g. \<not> guard_holds g (dispatch_ctx c objID member this access)) pre"
  then show "class_call n prog c (member_call objID member this access) env w
             = Some (run_handler g1 (dispatch_ctx c objID member this access) w)"
    using assms by (simp add: class_call_member run_guards_first)
next
  fix later
  obtain r where r: "run_guards (pre @ g1 # mid @ g2 # post) (dispatch_ctx c objID member this access) w = Some r"
    using assms(4) by (cases "run_guards (pre @ g1 # mid @ g2 # post) (dispatch_ctx c objID member this access) w")
      (auto simp: run_guards_None)
  have "run_guards (pre @ g1 # later) (dispatch_ctx c objID member this access) w = Some r"
    using run_guards_after_match[OF assms(4), of pre later w "mid @ g2 # post"] r by simp
  then show "class_call n prog (c\<lparr>guards := pre @ g1 # later\<rparr>) (member_call objID member this access) env w
             = class_call n prog c (member_call objID member this access) env w"
    using assms(1,2,3) r by (simp add: class_call_member)
qed

theorem first_matching_guard_wins_witness:
  "guard_holds (guards Greeter ! 1) (dispatch_ctx Greeter ''Greeter_1'' ''hello'' (Some (Str ''Bob'')) 0) \<and>
   guard_holds (guards Greeter ! 3) (dispatch_ctx Greeter ''Greeter_1'' ''hello'' (Some (Str ''Bob'')) 0) \<and>
   class_call (Suc 0) greeter_program Greeter (member_call ''Greeter_1'' ''hello'' (Some (Str ''Bob'')) 0) None greeter_world
     = Some (Return (Some (Str ''first'')) greeter_world) \<and>
   (\<forall>later. class_call (Suc 0) greeter_program (Greeter\<lparr>guards := take 2 (guards Greeter) @ later\<rparr>)
               (member_call ''Greeter_1'' ''hello'' (Some (Str ''Bob'')) 0) None greeter_world
     = class_call (Suc 0) greeter_program Greeter (member_call ''Greeter_1'' ''hello'' (Some (Str ''Bob'')) 0) None greeter_world)"
proof -
  let ?ctx = "dispatch_ctx Greeter ''Greeter_1'' ''hello'' (Some (Str ''Bob'')) 0"
  let ?g0 = "Guard PRIVATE (FUNCTION ''ANY'' ''hello'' (\<lambda>ctx w. Return (Some (Str ''private'')) w))"
  let ?g1 = "Guard PUBLIC (FUNCTION ''string'' ''hello'' (\<lambda>ctx w. Return (Some (Str ''first'')) w))"
  let ?g2 = "Guard PUBLIC (VARIABLE missionNamespace ''scalar'' ''volume'')"
  let ?g3 = "Guard PUBLIC (FUNCTION ''ANY'' ''HELLO'' (\<lambda>ctx w. Return (Some (Str ''second'')) w))"
  have id: "\<not> control_word ''Greeter_1''" and m: "''hello'' \<noteq> []"
    by (simp_all add: control_word_def string_defs)
  have gs: "guards Greeter = [?g0] @ ?g1 # [?g2] @ ?g3 # []"
    by (simp add: Greeter_def)
  have h1: "guard_holds ?g1 ?ctx" and h3: "guard_holds ?g3 ?ctx"
    and h0: "list_all (\<lambda>g. \<not> guard_holds g ?ctx) [?g0]"
    by (simp_all add: dispatch_ctx_def macro_defs string_defs)
  have sel: "guards Greeter ! 1 = ?g1" "guards Greeter ! 3 = ?g3" "take 2 (guards Greeter) = [?g0, ?g1]"
    by (simp_all add: Greeter_def)
  from first_matching_guard_wins[OF id m gs h1 h3, of "Suc 0" greeter_program None greeter_world] h0 h1 h3
  show ?thesis
    unfolding sel by simp
qed

section \<open>Variable members\<close>

text \<open>
  C1, as the claim states it, fails: a write through a variable member returns nil, not
  the value written, because the accessor block ends with \<^verbatim>\<open>setVariable\<close>.
\<close>

theorem variable_write_returns_nil:
  "class_call 1 player_program PlayerInfo (member_call ''PlayerInfo_1'' ''currentUnit'' (Some (Object 7)) 2) None player_world
     = Some (Return None (setVariable player_world missionNamespace ''PlayerInfo_1_currentUnit'' (Some (Object 7)))) \<and>
   class_call 1 player_program PlayerInfo (member_call ''PlayerInfo_1'' ''currentUnit'' (Some (Object 7)) 2) None player_world
     \<noteq> Some (Return (Some (Object 7)) (setVariable player_world missionNamespace ''PlayerInfo_1_currentUnit'' (Some (Object 7))))"
proof -
  have id: "\<not> control_word ''PlayerInfo_1''"
    by (simp add: control_word_def string_defs)
  have "class_call (Suc 0) player_program PlayerInfo (member_call ''PlayerInfo_1'' ''currentUnit'' (Some (Object 7)) 2) None player_world
     = Some (Return None (setVariable player_world missionNamespace ''PlayerInfo_1_currentUnit'' (Some (Object 7))))"
    using id by (simp add: class_call_member PlayerInfo_def dispatch_ctx_def macro_defs string_defs)
  then show ?thesis by simp
qed

text \<open>
  C1, amended. When a variable member's guard serves a member call, a call with a nil
  argument returns the value stored under the variable's key (nil when nothing is
  stored) and changes nothing; a call with an argument stores the argument under that
  key and returns nil. The key is \<^verbatim>\<open>GETVAR\<close> of the instance identifier for \<^verbatim>\<open>VARIABLE\<close>
  and \<^verbatim>\<open>GETSVAR\<close> of the class name for \<^verbatim>\<open>STATIC_VARIABLE\<close>; reading a key after a
  write to it gives the value written.
\<close>

theorem variable_member_get_set:
  assumes "\<not> control_word objID" and "member \<noteq> []"
    and "serving_guard c objID member this access = Some (Guard lvl mem)"
    and "(mem = VARIABLE space typeStr varName \<and> key = GETVAR objID varName) \<or>
         (mem = STATIC_VARIABLE space typeStr varName \<and> key = GETSVAR (className c) varName)"
  shows "class_call n prog c (member_call objID member this access) env w =
           (case this of
              None \<Rightarrow> Some (Return (getVariable w space key) w)
            | Some v \<Rightarrow> Some (Return None (setVariable w space key (Some v)))) \<and>
         getVariable (setVariable w space key (Some v')) space key = Some v'"
  using assms(4) class_call_served[OF assms(1,2,3), of n prog env w]
  by (auto simp: VAR_DFT_FUNC_def SVAR_DFT_FUNC_def dispatch_ctx_def split: option.splits)

theorem variable_member_get_set_witness:
  "serving_guard PlayerInfo ''PlayerInfo_1'' ''currentUnit'' (Some (Object 7)) 2
     = Some (Guard PRIVATE (VARIABLE missionNamespace ''object'' ''currentUnit'')) \<and>
   class_call 1 player_program PlayerInfo (member_call ''PlayerInfo_1'' ''currentUnit'' (Some (Object 7)) 2) None player_world
     = Some (Return None (setVariable player_world missionNamespace ''PlayerInfo_1_currentUnit'' (Some (Object 7)))) \<and>
   serving_guard PlayerInfo ''PlayerInfo_1'' ''currentUnit'' None 2
     = Some (Guard PRIVATE (VARIABLE missionNamespace ''object'' ''currentUnit'')) \<and>
   class_call 1 player_program PlayerInfo (member_call ''PlayerInfo_1'' ''currentUnit'' None 2) None player_world
     = Some (Return None player_world) \<and>
   class_call 1 player_program PlayerInfo (member_call ''PlayerInfo_1'' ''currentUnit'' None 2) None
       (setVariable player_world missionNamespace ''PlayerInfo_1_currentUnit'' (Some (Object 7)))
     = Some (Return (Some (Object 7)) (setVariable player_world missionNamespace ''PlayerInfo_1_currentUnit'' (Some (Object 7)))) \<and>
   serving_guard PlayerInfo ''PlayerInfo_2'' ''unitCount'' None 2
     = Some (Guard PRIVATE (STATIC_VARIABLE missionNamespace ''scalar'' ''unitCount'')) \<and>
   class_call 1 player_program PlayerInfo (member_call ''PlayerInfo_2'' ''unitCount'' None 2) None
       (setVariable player_world missionNamespace ''PlayerInfo_unitCount'' (Some (Scalar 1)))
     = Some (Return (Some (Scalar 1)) (setVariable player_world missionNamespace ''PlayerInfo_unitCount'' (Some (Scalar 1))))"
proof -
  let ?w = "setVariable player_world missionNamespace ''PlayerInfo_1_currentUnit'' (Some (Object 7))"
  let ?s = "setVariable player_world missionNamespace ''PlayerInfo_unitCount'' (Some (Scalar 1))"
  have id: "\<not> control_word ''PlayerInfo_1''" "\<not> control_word ''PlayerInfo_2''"
    and m: "''currentUnit'' \<noteq> []" "''unitCount'' \<noteq> []"
    by (simp_all add: control_word_def string_defs)
  have s1: "serving_guard PlayerInfo ''PlayerInfo_1'' ''currentUnit'' this 2
     = Some (Guard PRIVATE (VARIABLE missionNamespace ''object'' ''currentUnit''))"
    if "this = None \<or> this = Some (Object 7)" for this
    using that by (auto simp: serving_guard_def PlayerInfo_def dispatch_ctx_def macro_defs string_defs)
  have s2: "serving_guard PlayerInfo ''PlayerInfo_2'' ''unitCount'' None 2
     = Some (Guard PRIVATE (STATIC_VARIABLE missionNamespace ''scalar'' ''unitCount''))"
    by (simp add: serving_guard_def PlayerInfo_def dispatch_ctx_def macro_defs string_defs)
  have k1: "GETVAR ''PlayerInfo_1'' ''currentUnit'' = ''PlayerInfo_1_currentUnit''"
    and k2: "GETSVAR (className PlayerInfo) ''unitCount'' = ''PlayerInfo_unitCount''"
    by (simp_all add: GETVAR_def GETSVAR_def PlayerInfo_def)
  have e: "getVariable player_world missionNamespace ''PlayerInfo_1_currentUnit'' = None"
    by (simp add: player_world_def register_def PlayerInfo_def no_vars_def host_defs)
  have one: "(1::nat) = Suc 0" by simp
  from variable_member_get_set[OF id(1) m(1) s1, where n = 1 and prog = player_program and env = None and key = "''PlayerInfo_1_currentUnit''"
      and w = player_world and this = "Some (Object 7)" and space = missionNamespace and typeStr = "''object''" and varName = "''currentUnit''"] k1
  have a: "class_call 1 player_program PlayerInfo (member_call ''PlayerInfo_1'' ''currentUnit'' (Some (Object 7)) 2) None player_world
     = Some (Return None ?w)"
    unfolding one by simp
  from variable_member_get_set[OF id(1) m(1) s1, where n = 1 and prog = player_program and env = None and key = "''PlayerInfo_1_currentUnit''"
      and this = None and space = missionNamespace and typeStr = "''object''" and varName = "''currentUnit''"] k1 e
  have b: "class_call 1 player_program PlayerInfo (member_call ''PlayerInfo_1'' ''currentUnit'' None 2) None player_world
     = Some (Return None player_world)"
    "class_call 1 player_program PlayerInfo (member_call ''PlayerInfo_1'' ''currentUnit'' None 2) None ?w
     = Some (Return (Some (Object 7)) ?w)"
    unfolding one by simp_all
  from variable_member_get_set[OF id(2) m(2) s2, where n = 1 and prog = player_program and env = None and key = "''PlayerInfo_unitCount''"
      and w = ?s and space = missionNamespace and typeStr = "''scalar''" and varName = "''unitCount''"] k2
  have c: "class_call 1 player_program PlayerInfo (member_call ''PlayerInfo_2'' ''unitCount'' None 2) None ?s
     = Some (Return (Some (Scalar 1)) ?s)"
    unfolding one by simp
  from a b c s1 s2 show ?thesis by simp
qed

section \<open>Static and instance variables\<close>

text \<open>
  C7. Let a variable member's guard serve a write through instance identifier \<open>id1\<close> and
  a later read through instance identifier \<open>id2\<close>. For a static variable the write
  stores under the key made from the class name, whatever \<open>id1\<close> is, and the read through
  \<open>id2\<close> returns the value written. For a variable that is not static the key is made
  from the instance identifier: the read through \<open>id2\<close> returns the value written only
  when \<open>id2\<close> is \<open>id1\<close> (up to letter case), and otherwise returns what was stored for
  \<open>id2\<close> before the write.
\<close>

theorem static_variable_shared:
  assumes "\<not> control_word id1" and "\<not> control_word id2" and "member \<noteq> []"
    and "serving_guard c id1 member (Some v) a1 = Some (Guard lvl mem)"
    and "serving_guard c id2 member None a2 = Some (Guard lvl mem)"
  shows "(mem = STATIC_VARIABLE space typeStr varName \<longrightarrow>
            class_call n prog c (member_call id1 member (Some v) a1) env w
              = Some (Return None (setVariable w space (GETSVAR (className c) varName) (Some v))) \<and>
            class_call m prog c (member_call id2 member None a2) env
                (setVariable w space (GETSVAR (className c) varName) (Some v))
              = Some (Return (Some v) (setVariable w space (GETSVAR (className c) varName) (Some v)))) \<and>
         (mem = VARIABLE space typeStr varName \<longrightarrow>
            class_call n prog c (member_call id1 member (Some v) a1) env w
              = Some (Return None (setVariable w space (GETVAR id1 varName) (Some v))) \<and>
            class_call m prog c (member_call id2 member None a2) env
                (setVariable w space (GETVAR id1 varName) (Some v))
              = Some (Return (if sqf_eq id1 id2 then Some v else getVariable w space (GETVAR id2 varName))
                       (setVariable w space (GETVAR id1 varName) (Some v))))"
proof (intro conjI impI)
  assume s: "mem = STATIC_VARIABLE space typeStr varName"
  show "class_call n prog c (member_call id1 member (Some v) a1) env w
              = Some (Return None (setVariable w space (GETSVAR (className c) varName) (Some v)))"
    using class_call_served[OF assms(1,3,4), of n prog env w] s
    by (simp add: SVAR_DFT_FUNC_def dispatch_ctx_def)
  show "class_call m prog c (member_call id2 member None a2) env
                (setVariable w space (GETSVAR (className c) varName) (Some v))
              = Some (Return (Some v) (setVariable w space (GETSVAR (className c) varName) (Some v)))"
    using class_call_served[OF assms(2,3,5), of m prog env] s
    by (simp add: SVAR_DFT_FUNC_def dispatch_ctx_def)
next
  assume s: "mem = VARIABLE space typeStr varName"
  show "class_call n prog c (member_call id1 member (Some v) a1) env w
              = Some (Return None (setVariable w space (GETVAR id1 varName) (Some v)))"
    using class_call_served[OF assms(1,3,4), of n prog env w] s
    by (simp add: VAR_DFT_FUNC_def dispatch_ctx_def)
  have "getVariable (setVariable w space (GETVAR id1 varName) (Some v)) space (GETVAR id2 varName)
        = (if sqf_eq id1 id2 then Some v else getVariable w space (GETVAR id2 varName))"
    using GETVAR_eq[of id2 varName id1] 
    by (auto simp: getVariable_def setVariable_def sqf_eq_def)
  then show "class_call m prog c (member_call id2 member None a2) env
                (setVariable w space (GETVAR id1 varName) (Some v))
              = Some (Return (if sqf_eq id1 id2 then Some v else getVariable w space (GETVAR id2 varName))
                       (setVariable w space (GETVAR id1 varName) (Some v)))"
    using class_call_served[OF assms(2,3,5), of m prog env] s
    by (simp add: VAR_DFT_FUNC_def dispatch_ctx_def)
qed

theorem static_variable_shared_witness:
  "serving_guard PlayerInfo ''PlayerInfo_1'' ''unitCount'' (Some (Scalar 5)) 2
     = Some (Guard PRIVATE (STATIC_VARIABLE missionNamespace ''scalar'' ''unitCount'')) \<and>
   serving_guard PlayerInfo ''PlayerInfo_2'' ''unitCount'' None 2
     = Some (Guard PRIVATE (STATIC_VARIABLE missionNamespace ''scalar'' ''unitCount'')) \<and>
   class_call 1 player_program PlayerInfo (member_call ''PlayerInfo_1'' ''unitCount'' (Some (Scalar 5)) 2) None player_world
     = Some (Return None (setVariable player_world missionNamespace ''PlayerInfo_unitCount'' (Some (Scalar 5)))) \<and>
   class_call 1 player_program PlayerInfo (member_call ''PlayerInfo_2'' ''unitCount'' None 2) None
       (setVariable player_world missionNamespace ''PlayerInfo_unitCount'' (Some (Scalar 5)))
     = Some (Return (Some (Scalar 5)) (setVariable player_world missionNamespace ''PlayerInfo_unitCount'' (Some (Scalar 5)))) \<and>
   serving_guard PlayerInfo ''PlayerInfo_1'' ''currentUnit'' (Some (Object 7)) 2
     = Some (Guard PRIVATE (VARIABLE missionNamespace ''object'' ''currentUnit'')) \<and>
   serving_guard PlayerInfo ''PlayerInfo_2'' ''currentUnit'' None 2
     = Some (Guard PRIVATE (VARIABLE missionNamespace ''object'' ''currentUnit'')) \<and>
   \<not> sqf_eq ''PlayerInfo_1'' ''PlayerInfo_2'' \<and>
   class_call 1 player_program PlayerInfo (member_call ''PlayerInfo_1'' ''currentUnit'' (Some (Object 7)) 2) None player_world
     = Some (Return None (setVariable player_world missionNamespace ''PlayerInfo_1_currentUnit'' (Some (Object 7)))) \<and>
   class_call 1 player_program PlayerInfo (member_call ''PlayerInfo_2'' ''currentUnit'' None 2) None
       (setVariable player_world missionNamespace ''PlayerInfo_1_currentUnit'' (Some (Object 7)))
     = Some (Return None (setVariable player_world missionNamespace ''PlayerInfo_1_currentUnit'' (Some (Object 7))))"
proof -
  have id: "\<not> control_word ''PlayerInfo_1''" "\<not> control_word ''PlayerInfo_2''"
    and m: "''currentUnit'' \<noteq> []" "''unitCount'' \<noteq> []"
    and ne: "\<not> sqf_eq ''PlayerInfo_1'' ''PlayerInfo_2''"
    by (simp_all add: control_word_def string_defs)
  have s: "serving_guard PlayerInfo ''PlayerInfo_1'' ''unitCount'' (Some (Scalar 5)) 2
     = Some (Guard PRIVATE (STATIC_VARIABLE missionNamespace ''scalar'' ''unitCount''))"
    "serving_guard PlayerInfo ''PlayerInfo_2'' ''unitCount'' None 2
     = Some (Guard PRIVATE (STATIC_VARIABLE missionNamespace ''scalar'' ''unitCount''))"
    "serving_guard PlayerInfo ''PlayerInfo_1'' ''currentUnit'' (Some (Object 7)) 2
     = Some (Guard PRIVATE (VARIABLE missionNamespace ''object'' ''currentUnit''))"
    "serving_guard PlayerInfo ''PlayerInfo_2'' ''currentUnit'' None 2
     = Some (Guard PRIVATE (VARIABLE missionNamespace ''object'' ''currentUnit''))"
    by (simp_all add: serving_guard_def PlayerInfo_def dispatch_ctx_def macro_defs string_defs)
  have k: "GETVAR ''PlayerInfo_1'' ''currentUnit'' = ''PlayerInfo_1_currentUnit''"
    "GETSVAR (className PlayerInfo) ''unitCount'' = ''PlayerInfo_unitCount''"
    "getVariable player_world missionNamespace (GETVAR ''PlayerInfo_2'' ''currentUnit'') = None"
    by (simp_all add: GETVAR_def GETSVAR_def PlayerInfo_def player_world_def register_def no_vars_def host_defs)
  have one: "(1::nat) = Suc 0" by simp
  from static_variable_shared[OF id m(2) s(1,2), where space = missionNamespace and typeStr = "''scalar''"
      and varName = "''unitCount''" and n = 1 and m = 1 and prog = player_program and env = None and w = player_world]
  have a: "class_call 1 player_program PlayerInfo (member_call ''PlayerInfo_1'' ''unitCount'' (Some (Scalar 5)) 2) None player_world
     = Some (Return None (setVariable player_world missionNamespace ''PlayerInfo_unitCount'' (Some (Scalar 5))))"
   "class_call 1 player_program PlayerInfo (member_call ''PlayerInfo_2'' ''unitCount'' None 2) None
       (setVariable player_world missionNamespace ''PlayerInfo_unitCount'' (Some (Scalar 5)))
     = Some (Return (Some (Scalar 5)) (setVariable player_world missionNamespace ''PlayerInfo_unitCount'' (Some (Scalar 5))))"
    unfolding one k by simp_all
  from static_variable_shared[OF id m(1) s(3,4), where space = missionNamespace and typeStr = "''object''"
      and varName = "''currentUnit''" and n = 1 and m = 1 and prog = player_program and env = None and w = player_world] ne
  have b: "class_call 1 player_program PlayerInfo (member_call ''PlayerInfo_1'' ''currentUnit'' (Some (Object 7)) 2) None player_world
     = Some (Return None (setVariable player_world missionNamespace ''PlayerInfo_1_currentUnit'' (Some (Object 7))))"
   "class_call 1 player_program PlayerInfo (member_call ''PlayerInfo_2'' ''currentUnit'' None 2) None
       (setVariable player_world missionNamespace ''PlayerInfo_1_currentUnit'' (Some (Object 7)))
     = Some (Return None (setVariable player_world missionNamespace ''PlayerInfo_1_currentUnit'' (Some (Object 7))))"
    unfolding one k by simp_all
  from a b s ne show ?thesis by simp
qed

section \<open>Access levels\<close>






section \<open>Forwarding to the parent class\<close>

text \<open>
  A class declared with \<^verbatim>\<open>CLASS\<close> that is reached by a forwarded call reads the parent
  name its caller set, which is its own name. When none of its guards holds it calls
  itself with the same arguments, at every depth.
\<close>

lemma self_forward_never_returns:
  assumes "\<not> control_word objID" and "member \<noteq> []"
    and "objParentClass (prog i) = None"
    and "GETCLASS w (NAMESPACE (prog i)) p = Code (ClassCode i)"
    and "unmatched (prog i) objID member this 1"
  shows "sqf_call n prog (Code (ClassCode i)) (member_call objID member this 1) (Some p) w = None"
proof (induction n)
  case 0
  show ?case by simp
next
  case (Suc n)
  have "seen_parent (prog i) (Some p) = Some p"
    using assms(3) by (simp add: seen_parent_def)
  then show ?case
    using Suc assms(4) by (simp add: sqf_call_class class_call_unmatched[OF assms(1,2,5)])
qed

lemma forward_to_parent:
  assumes "\<not> control_word objID" and "member \<noteq> []"
    and "unmatched c objID member this access" and "objParentClass c = Some p"
  shows "class_call n prog c (member_call objID member this access) env w
         = sqf_call n prog (GETCLASS w (NAMESPACE c) p) (member_call objID member this 1) (Some p) w"
  using assms(4) by (simp add: class_call_unmatched[OF assms(1,2,3)] seen_parent_def)

lemmas shape_defs = Shape_def Circle_def Dot_def shape_program_def shape_world_def

lemma shape_lookup:
  "GETCLASS shape_world missionNamespace ''Shape'' = Code (ClassCode 0)"
  "GETCLASS shape_world missionNamespace ''Circle'' = Code (ClassCode 1)"
  "GETCLASS shape_world missionNamespace ''Dot'' = Code (ClassCode 2)"
  "shape_program 0 = Shape" "shape_program 1 = Circle" "shape_program 2 = Dot"
  "shape_program (Suc 0) = Circle"
  by (simp_all add: shape_defs GETCLASS_def register_def host_defs)

lemma shape_area_unmatched:
  "unmatched Shape objID ''area'' this access"
  "unmatched Circle objID ''area'' this access"
  "unmatched Dot objID ''area'' this access"
  by (simp_all add: unmatched_def shape_defs dispatch_ctx_def macro_defs string_defs)

text \<open>
  C3. The first half of the claim holds: a member call that no guard of a child class
  serves is passed to the code stored under the parent's name with the same instance
  identifier, member name and argument and with access level 1. The second half does
  not: when the parent is a class declared with \<^verbatim>\<open>CLASS\<close>, stored under the name the child
  gives, and none of its guards holds either, the result is not nil. The call has not
  returned at any depth of nested calls, because the parent finds the child's
  \<^verbatim>\<open>_objParentClass\<close> in scope and forwards the call to itself again and again.
\<close>

theorem unmatched_call_is_forwarded_without_end:
  assumes "\<not> control_word objID" and "member \<noteq> []"
    and "unmatched c objID member this access"
    and "objParentClass c = Some p"
    and "GETCLASS w (NAMESPACE c) p = Code (ClassCode i)"
    and "objParentClass (prog i) = None"
    and "GETCLASS w (NAMESPACE (prog i)) p = Code (ClassCode i)"
    and "unmatched (prog i) objID member this 1"
  shows "class_call n prog c (member_call objID member this access) env w
           = sqf_call n prog (GETCLASS w (NAMESPACE c) p) (member_call objID member this 1) (Some p) w \<and>
         class_call n prog c (member_call objID member this access) env w = None"
  using forward_to_parent[OF assms(1,2,3,4), of n prog env w]
    self_forward_never_returns[where prog = prog and i = i, OF assms(1,2,6,7,8), of n] assms(5)
  by simp

theorem unmatched_call_is_forwarded_without_end_witness:
  "\<not> control_word ''Circle_1'' \<and> unmatched Circle ''Circle_1'' ''area'' None 0 \<and>
   objParentClass Circle = Some ''Shape'' \<and>
   GETCLASS shape_world (NAMESPACE Circle) ''Shape'' = Code (ClassCode 0) \<and>
   objParentClass (shape_program 0) = None \<and>
   GETCLASS shape_world (NAMESPACE (shape_program 0)) ''Shape'' = Code (ClassCode 0) \<and>
   unmatched (shape_program 0) ''Circle_1'' ''area'' None 1 \<and>
   class_call 7 shape_program Circle (member_call ''Circle_1'' ''area'' None 0) None shape_world
     = sqf_call 7 shape_program (GETCLASS shape_world (NAMESPACE Circle) ''Shape'')
         (member_call ''Circle_1'' ''area'' None 1) (Some ''Shape'') shape_world \<and>
   class_call 7 shape_program Circle (member_call ''Circle_1'' ''area'' None 0) None shape_world = None"
proof -
  have id: "\<not> control_word ''Circle_1''" and m: "''area'' \<noteq> []"
    by (simp_all add: control_word_def string_defs)
  have p: "objParentClass Circle = Some ''Shape''" "objParentClass (shape_program 0) = None"
    and n: "NAMESPACE Circle = missionNamespace" "NAMESPACE (shape_program 0) = missionNamespace"
    by (simp_all add: shape_defs)
  have l: "GETCLASS shape_world (NAMESPACE Circle) ''Shape'' = Code (ClassCode 0)"
    "GETCLASS shape_world (NAMESPACE (shape_program 0)) ''Shape'' = Code (ClassCode 0)"
    unfolding n by (rule shape_lookup(1))+
  have u: "unmatched Circle ''Circle_1'' ''area'' None 0" "unmatched (shape_program 0) ''Circle_1'' ''area'' None 1"
    unfolding shape_lookup(4) by (rule shape_area_unmatched)+
  note t = unmatched_call_is_forwarded_without_end
    [where prog = shape_program and i = 0 and n = 7 and env = None, OF id m u(1) p(1) l(1) p(2) l(2) u(2)]
  from t have a: "class_call 7 shape_program Circle (member_call ''Circle_1'' ''area'' None 0) None shape_world
     = sqf_call 7 shape_program (GETCLASS shape_world (NAMESPACE Circle) ''Shape'')
         (member_call ''Circle_1'' ''area'' None 1) (Some ''Shape'') shape_world"
    by (rule conjunct1)
  from t have b: "class_call 7 shape_program Circle (member_call ''Circle_1'' ''area'' None 0) None shape_world = None"
    by (rule conjunct2)
  from id u p l a b show ?thesis
    by - (intro conjI; assumption)
qed

section \<open>Failures that are not nil\<close>

text \<open>
  C8. Not every failure is a nil result. With \<open>Shape\<close>, \<open>Circle\<close> and \<open>Dot\<close> loaded, the
  member call \<^verbatim>\<open>["Dot_1", "area"] call Dot\<close> from outside any class matches no guard of the
  three classes. It is forwarded to \<open>Circle\<close> and then to \<open>Shape\<close>, which forwards it to
  itself: at no depth of nested calls has the call returned. The same happens to
  \<^verbatim>\<open>"delete"\<close> of an object of \<open>Circle\<close>, since the only deconstructor, in \<open>Shape\<close>, is
  private. And when the name of the parent holds a value that is not code, here the
  number 5 stored under \<^verbatim>\<open>Shape\<close>, the forwarded call is a script error.
\<close>

theorem unmatched_call_below_root_never_returns:
  "class_call n shape_program Dot (member_call ''Dot_1'' ''area'' None 0) None shape_world = None \<and>
   class_call n shape_program Circle
       (Array [Some (Str ''delete''), Some (Code (ObjCode ''Circle_1'' ''Circle'' missionNamespace))])
       None shape_world = None \<and>
   class_call (Suc n) shape_program Circle (member_call ''Circle_1'' ''area'' None 0) None
       (setVariable shape_world missionNamespace ''Shape'' (Some (Scalar 5))) = Some ScriptError"
proof (intro conjI)
  have id: "\<not> control_word ''Dot_1''" "\<not> control_word ''Circle_1''"
    and m: "''area'' \<noteq> []" "DECONSTRUCTOR_METHOD \<noteq> []"
    by (simp_all add: control_word_def string_defs DECONSTRUCTOR_METHOD_def)
  have p: "objParentClass Dot = Some ''Circle''" "objParentClass Circle = Some ''Shape''"
    "objParentClass (shape_program 0) = None"
    and ns: "NAMESPACE Dot = missionNamespace" "NAMESPACE Circle = missionNamespace"
    "NAMESPACE (shape_program 0) = missionNamespace" "NAMESPACE Shape = missionNamespace"
    by (simp_all add: shape_defs)
  have root: "sqf_call k shape_program (Code (ClassCode 0)) (member_call objID ''area'' None 1)
      (Some ''Shape'') shape_world = None" if "\<not> control_word objID" for k objID
    using self_forward_never_returns[where prog = shape_program and i = 0 and w = shape_world
        and p = "''Shape''" and this = None and n = k, OF that m(1) p(3)]
      shape_area_unmatched(1)[of objID None 1]
    by (simp add: ns shape_lookup)
  have circle: "class_call k shape_program Circle (member_call objID ''area'' None a) env shape_world = None"
    if "\<not> control_word objID" for k objID a env
    using forward_to_parent[OF that m(1) shape_area_unmatched(2) p(2), where n = k and prog = shape_program and env = env and w = shape_world]
      root[OF that]
    by (simp add: ns shape_lookup)
  have "class_call n shape_program Dot (member_call ''Dot_1'' ''area'' None 0) None shape_world
     = sqf_call n shape_program (Code (ClassCode 1)) (member_call ''Dot_1'' ''area'' None 1) (Some ''Circle'') shape_world"
    using forward_to_parent[OF id(1) m(1) shape_area_unmatched(3) p(1), where n = n and prog = shape_program and env = None and w = shape_world]
    by (simp add: ns shape_lookup)
  also have "\<dots> = None"
    using circle[OF id(1)] by (cases n) (simp_all add: sqf_call_class shape_lookup)
  finally show "class_call n shape_program Dot (member_call ''Dot_1'' ''area'' None 0) None shape_world = None" .
next
  have id: "\<not> control_word ''Circle_1''" and m: "DECONSTRUCTOR_METHOD \<noteq> []"
    by (simp_all add: control_word_def string_defs DECONSTRUCTOR_METHOD_def)
  have p: "objParentClass Circle = Some ''Shape''" "objParentClass (shape_program 0) = None"
    and ns: "NAMESPACE Circle = missionNamespace" "NAMESPACE (shape_program 0) = missionNamespace"
      "NAMESPACE Shape = missionNamespace"
    by (simp_all add: shape_defs)
  have u: "unmatched Circle ''Circle_1'' DECONSTRUCTOR_METHOD None 0"
    "unmatched (shape_program 0) ''Circle_1'' DECONSTRUCTOR_METHOD None 1"
    by (simp_all add: unmatched_def shape_defs dispatch_ctx_def macro_defs string_defs)
  have inner: "class_call k shape_program Circle (member_call ''Circle_1'' DECONSTRUCTOR_METHOD None 0)
      None shape_world = None" for k
    using forward_to_parent[OF id m u(1) p(1), where n = k and prog = shape_program and env = None and w = shape_world]
      self_forward_never_returns[where prog = shape_program and i = 0 and w = shape_world
        and p = "''Shape''" and n = k, OF id m p(2) _ u(2)]
    by (simp add: ns shape_lookup)
  let ?args = "Array [Some (Str ''delete''), Some (Code (ObjCode ''Circle_1'' ''Circle'' missionNamespace))]"
  have d: "class_call k shape_program Circle ?args None shape_world
     = sqf_call k shape_program (Code (ObjCode ''Circle_1'' ''Circle'' missionNamespace))
         (Array [Some (Str DECONSTRUCTOR_METHOD), None]) None shape_world" for k
    by (simp add: class_call_def class_code_def delete_object_def Let_def host_defs)
  have o: "sqf_call (Suc k) shape_program (Code (ObjCode ''Circle_1'' ''Circle'' missionNamespace))
         (Array [Some (Str DECONSTRUCTOR_METHOD), None]) None shape_world
     = sqf_call k shape_program (Code (ClassCode 1))
         (member_call ''Circle_1'' DECONSTRUCTOR_METHOD None 0) None shape_world" for k
    by (simp add: sqf_call.simps(2) shape_lookup param_str_def param_any_def)
  show "class_call n shape_program Circle ?args None shape_world = None"
  proof (cases n)
    case 0
    then show ?thesis by (simp add: d)
  next
    case (Suc k)
    then show ?thesis
      using inner by (cases k) (simp_all add: d o sqf_call_class shape_lookup)
  qed
next
  let ?w = "setVariable shape_world missionNamespace ''Shape'' (Some (Scalar 5))"
  have id: "\<not> control_word ''Circle_1''" and m: "''area'' \<noteq> []"
    by (simp_all add: control_word_def string_defs)
  have p: "objParentClass Circle = Some ''Shape''" and ns: "NAMESPACE Circle = missionNamespace"
    by (simp_all add: shape_defs)
  have l: "GETCLASS ?w missionNamespace ''Shape'' = Scalar 5"
    by (simp add: GETCLASS_def)
  show "class_call (Suc n) shape_program Circle (member_call ''Circle_1'' ''area'' None 0) None ?w = Some ScriptError"
    using forward_to_parent[OF id m shape_area_unmatched(2) p, where n = "Suc n" and prog = shape_program and env = None and w = ?w]
    by (simp add: ns l sqf_call.simps(2))
qed

section \<open>The static operation\<close>







section \<open>Object identifiers\<close>

lemma digit_cases: "d < 10 \<Longrightarrow> d = 0 \<or> d = 1 \<or> d = 2 \<or> d = 3 \<or> d = 4 \<or> d = 5 \<or> d = 6 \<or> d = 7 \<or> d = 8 \<or> d = (9::nat)"
  by arith

lemma digit_char_inj: "d < 10 \<Longrightarrow> e < 10 \<Longrightarrow> digit_char d = digit_char e \<Longrightarrow> d = e"
proof -
  have "distinct ''0123456789''" by simp
  moreover have "length ''0123456789'' = 10" by simp
  ultimately show "d < 10 \<Longrightarrow> e < 10 \<Longrightarrow> digit_char d = digit_char e \<Longrightarrow> d = e"
    unfolding digit_char_def by (metis nth_eq_iff_index_eq)
qed

lemma digit_char_in: "d < 10 \<Longrightarrow> digit_char d \<in> set ''0123456789''"
  using digit_cases[of d] by (auto simp: digit_char_def)

lemma show_nat_digits: "set (show_nat n) \<subseteq> set ''0123456789''"
proof (induction n rule: show_nat.induct)
  case (1 n)
  show ?case
  proof (cases "n < 10")
    case True
    then show ?thesis
      using digit_char_in[of n] by (subst show_nat.simps) simp
  next
    case False
    then show ?thesis
      using 1 digit_char_in[of "n mod 10"] by (subst show_nat.simps) simp
  qed
qed

lemma show_nat_not_Nil [simp]: "show_nat n \<noteq> []" "[] \<noteq> show_nat n"
  by (subst show_nat.simps, simp)+

lemma show_nat_inj: "show_nat n = show_nat m \<Longrightarrow> n = m"
proof (induction n arbitrary: m rule: show_nat.induct)
  case (1 n)
  show ?case
  proof (cases "n < 10")
    case n: True
    show ?thesis
    proof (cases "m < 10")
      case True
      with n 1(2) show ?thesis
        by (simp add: show_nat.simps[of n] show_nat.simps[of m] digit_char_inj)
    next
      case False
      with n 1(2) show ?thesis
        by (simp add: show_nat.simps[of n] show_nat.simps[of m])
    qed
  next
    case n: False
    show ?thesis
    proof (cases "m < 10")
      case True
      with n 1(2) show ?thesis
        by (simp add: show_nat.simps[of n] show_nat.simps[of m])
    next
      case False
      with n 1(2) have "show_nat (n div 10) = show_nat (m div 10)"
        and "digit_char (n mod 10) = digit_char (m mod 10)"
        by (simp_all add: show_nat.simps[of n] show_nat.simps[of m])
      then have "n div 10 = m div 10" and "n mod 10 = m mod 10"
        using 1(1)[OF n] digit_char_inj[of "n mod 10" "m mod 10"] by simp_all
      then show ?thesis
        by (metis div_mult_mod_eq)
    qed
  qed
qed

lemma show_nat_last: "last (show_nat n) \<in> set ''0123456789''"
  using show_nat_digits[of n] last_in_set[of "show_nat n"] show_nat_not_Nil(1)[of n] by blast

lemma exponent_form_last: "exponent_form a \<noteq> [] \<and> last (exponent_form a) \<in> set ''0123456789''"
proof -
  have "last (x # xs @ ''e+'' @ pad3 (show_nat e)) \<in> set ''0123456789''" for x xs e
    using show_nat_last[of e] by (simp add: pad3_def)
  then show ?thesis
    by (simp add: exponent_form_def Let_def del: list.set)
qed

lemma format_number_last: "format_number k \<noteq> [] \<and> last (format_number k) \<in> set ''0123456789''"
  using exponent_form_last[of "nat \<bar>k\<bar>"] show_nat_last[of "nat \<bar>k\<bar>"]
  by (simp add: format_number_def Let_def del: list.set)

lemma toLower_digit: "c \<in> set ''0123456789'' \<Longrightarrow> toLower c = c"
proof -
  assume "c \<in> set ''0123456789''"
  then consider "c = CHR ''0''" | "c = CHR ''1''" | "c = CHR ''2''" | "c = CHR ''3''" | "c = CHR ''4''"
    | "c = CHR ''5''" | "c = CHR ''6''" | "c = CHR ''7''" | "c = CHR ''8''" | "c = CHR ''9''"
    by (simp only: list.set insert_iff empty_iff) blast
  then show ?thesis
    by cases (simp_all add: toLower_table)
qed

lemma lower_last: "s \<noteq> [] \<Longrightarrow> last (lower s) = toLower (last s)"
  by (simp add: lower_def last_map)

text \<open>An identifier that ends in a digit is not a control word.\<close>

lemma ends_in_digit_not_control:
  assumes "s \<noteq> []" and "last s \<in> set ''0123456789''"
  shows "\<not> control_word (p @ s)"
proof -
  have "last (lower (p @ s)) = last s"
    using assms by (simp add: lower_last toLower_digit del: lower_append)
  moreover have "last ''new'' \<notin> set ''0123456789''" "last ''delete'' \<notin> set ''0123456789''"
    "last ''static'' \<notin> set ''0123456789''"
    by simp_all
  ultimately have "lower (p @ s) \<noteq> ''new''" "lower (p @ s) \<noteq> ''delete''" "lower (p @ s) \<noteq> ''static''"
    using assms(2) by metis+
  moreover have "lower ''new'' = ''new''" "lower ''delete'' = ''delete''" "lower ''static'' = ''static''"
    by (simp_all add: string_defs)
  ultimately show ?thesis
    using assms(1) by (simp add: control_word_def sqf_eq_def del: lower_append)
qed

lemma object_id_not_control: "\<not> control_word (object_id c i)"
  using ends_in_digit_not_control[of "format_number (f32 (i + 1))" "className c @ ''_''"]
    format_number_last[of "f32 (i + 1)"]
  by (simp add: object_id_def)

text \<open>The counter variable of a class is not the variable that holds the class.\<close>

lemma counter_key_differs: "lower (AUTO_INC_VAR cls) \<noteq> lower cls"
proof
  assume "lower (AUTO_INC_VAR cls) = lower cls"
  then have "length (lower (AUTO_INC_VAR cls)) = length (lower cls)"
    by simp
  then show False
    by (simp add: AUTO_INC_VAR_def lower_def)
qed

lemma GETCLASS_counter_set [simp]:
  "GETCLASS (counter_set w c i) (NAMESPACE c) (className c) = GETCLASS w (NAMESPACE c) (className c)"
  using counter_key_differs[of "className c"]
  by (simp add: GETCLASS_def counter_set_def get_set_other del: lower_append)

section \<open>Constructor and deconstructor\<close>

lemma guard_holds_name_level:
  "guard_holds g ctx \<Longrightarrow> sqf_eq (objMember ctx) (guard_name g) \<and> guard_level g \<le> objAccess ctx"
  by (cases "(g, ctx)" rule: guard_holds.cases) (auto simp: CHECK_MEMBER_def CHECK_VAR_def)

lemma sqf_eq_sym: "sqf_eq a b \<Longrightarrow> sqf_eq b a"
  by (simp add: sqf_eq_def)

text \<open>When every guard with the member's name asks for more than the caller has, none holds.\<close>

lemma named_levels_above:
  assumes "list_all (\<lambda>g. sqf_eq (guard_name g) member \<longrightarrow> access < guard_level g) (guards c)"
  shows "unmatched c objID member this access"
  unfolding unmatched_def list_all_iff
proof
  fix g
  assume g: "g \<in> set (guards c)"
  show "\<not> guard_holds g (dispatch_ctx c objID member this access)"
  proof
    assume "guard_holds g (dispatch_ctx c objID member this access)"
    from guard_holds_name_level[OF this]
    have "sqf_eq (guard_name g) member" and "guard_level g \<le> access"
      by (simp_all add: sqf_eq_sym)
    with assms g show False
      by (auto simp: list_all_iff)
  qed
qed

lemma method_names_not_empty [simp]: "CONSTRUCTOR_METHOD \<noteq> []" "DECONSTRUCTOR_METHOD \<noteq> []"
  by (simp_all add: CONSTRUCTOR_METHOD_def DECONSTRUCTOR_METHOD_def)

text \<open>Calling the code of an object: a member call on its class at access level 0.\<close>

lemma sqf_call_object:
  "sqf_call (Suc n) prog (Code (ObjCode objID cls ns)) (Array [Some (Str member), this]) env w
   = sqf_call n prog (GETCLASS w ns cls) (member_call objID member this 0) env w"
  by (simp add: sqf_call.simps(2) param_str_def param_any_def)

lemma class_call_new:
  assumes "sqf_eq (param_str (param_list args) 0) ''new''"
    and "GET_AUTO_INC w (NAMESPACE c) (className c) = Scalar i"
  shows "class_call (Suc n) prog c args env w =
     (case sqf_call n prog (GETCLASS w (NAMESPACE c) (className c))
             (member_call (object_id c i) CONSTRUCTOR_METHOD (param_any (param_list args) 1) 0) env
             (counter_set w c i) of
        None \<Rightarrow> None
      | Some ScriptError \<Rightarrow> Some ScriptError
      | Some (Return r w2) \<Rightarrow>
          Some (Return (Some (Code (ObjCode (object_id c i) (className c) (NAMESPACE c)))) w2))"
proof -
  have "class_call (Suc n) prog c args env w = new_object (sqf_call (Suc n) prog) c (param_list args) env w"
    using assms(1) by (simp add: class_call_def class_code_def Let_def sqf_eq_new)
  also have "\<dots> =
     (case sqf_call (Suc n) prog (Code (ObjCode (object_id c i) (className c) (NAMESPACE c)))
             (Array [Some (Str CONSTRUCTOR_METHOD), param_any (param_list args) 1]) env (counter_set w c i) of
        None \<Rightarrow> None
      | Some ScriptError \<Rightarrow> Some ScriptError
      | Some (Return r w2) \<Rightarrow>
          Some (Return (Some (Code (ObjCode (object_id c i) (className c) (NAMESPACE c)))) w2))"
    using assms(2)
    by (simp add: new_object_def Let_def object_id_def counter_set_def split: option.split outcome.split)
  finally show ?thesis
    by (simp only: sqf_call_object GETCLASS_counter_set)
qed




lemma stored_as_GETCLASS:
  "stored_as w prog c i \<Longrightarrow> GETCLASS w (NAMESPACE c) (className c) = Code (ClassCode i) \<and> prog i = c"
  by (simp add: stored_as_def GETCLASS_def)



lemma ulp_small: "x < 16777216 \<Longrightarrow> ulp x = 1"
  by (subst ulp.simps) simp

lemma f32_nat_small: "x \<le> 16777216 \<Longrightarrow> f32_nat x = x"
proof (cases "x < 16777216")
  case True
  then show ?thesis
    by (simp add: f32_nat_def ulp_small)
next
  case False
  moreover assume "x \<le> 16777216"
  ultimately have "x = 16777216"
    by simp
  then show ?thesis
    by (simp add: f32_nat_def ulp.simps)
qed

lemma f32_small: "\<bar>k\<bar> \<le> 16777216 \<Longrightarrow> f32 k = k"
  by (simp add: f32_def f32_nat_small)






section \<open>Identifiers of new objects\<close>

lemma setVariable_twice:
  "setVariable (setVariable w space key v) space key v' = setVariable w space key v'"
  by (simp add: setVariable_def)

lemma stored_as_counter_set: "stored_as w prog c j \<Longrightarrow> stored_as (counter_set w c i) prog c j"
  using counter_key_differs[of "className c"]
  by (simp add: stored_as_def counter_set_def get_set_other del: lower_append)

lemma GET_AUTO_INC_counter_set:
  "GET_AUTO_INC (counter_set w c i) (NAMESPACE c) (className c) = Scalar (f32 (i + 1))"
  by (simp add: GET_AUTO_INC_def counter_set_def)

text \<open>\<^verbatim>\<open>"new"\<close> from outside any class, on a class with no parent and no constructor to run.\<close>

lemma new_without_constructor:
  assumes "stored_as w prog c j" and "objParentClass c = None"
    and "list_all (\<lambda>g. sqf_eq (guard_name g) CONSTRUCTOR_METHOD \<longrightarrow> 0 < guard_level g) (guards c)"
    and "GET_AUTO_INC w (NAMESPACE c) (className c) = Scalar i"
  shows "class_call (Suc (Suc n)) prog c (Array [Some (Str ''new'')]) None w
         = Some (Return (Some (Code (ObjCode (object_id c i) (className c) (NAMESPACE c)))) (counter_set w c i))"
proof -
  let ?args = "Array [Some (Str ''new'')]"
  have new: "sqf_eq (param_str (param_list ?args) 0) ''new''"
    by (simp add: param_str_def param_any_def string_defs)
  have pa: "param_any (param_list ?args) 1 = None"
    by (simp add: param_any_def)
  have u: "unmatched c (object_id c i) CONSTRUCTOR_METHOD None 0"
    using assms(3) by (rule named_levels_above)
  have sp: "seen_parent c None = None"
    using assms(2) by (simp add: seen_parent_def)
  have inner: "class_call n prog c (member_call (object_id c i) CONSTRUCTOR_METHOD None 0)
      None (counter_set w c i) = Some (Return None (counter_set w c i))"
    by (simp add: class_call_unmatched[OF object_id_not_control method_names_not_empty(1) u] sp)
  note st = stored_as_GETCLASS[OF assms(1)]
  show ?thesis
    unfolding class_call_new[OF new assms(4)] pa st[THEN conjunct1] sqf_call_class st[THEN conjunct2] inner
    by simp
qed

text \<open>After \<open>m + 1\<close> such calls the counter has grown by \<open>m + 1\<close>, as long as it stays a float.\<close>

lemma repeat_new_counts:
  assumes "objParentClass c = None"
    and "list_all (\<lambda>g. sqf_eq (guard_name g) CONSTRUCTOR_METHOD \<longrightarrow> 0 < guard_level g) (guards c)"
  shows "stored_as w prog c j \<Longrightarrow> GET_AUTO_INC w (NAMESPACE c) (className c) = Scalar i \<Longrightarrow>
         0 \<le> i \<Longrightarrow> i + int m < 16777216 \<Longrightarrow>
         repeat_new (Suc m) (Suc (Suc d)) prog c w
           = Some (setVariable w (NAMESPACE c) (AUTO_INC_VAR (className c)) (Some (Scalar (i + int m + 1))))"
proof (induction m arbitrary: w i)
  case 0
  then have "f32 (i + 1) = i + 1"
    by (intro f32_small) simp
  then show ?case
    using new_without_constructor[OF 0(1) assms 0(2), where n = d]
    by (simp add: counter_set_def)
next
  case (Suc m)
  have f: "f32 (i + 1) = i + 1"
    using Suc(4,5) by (intro f32_small) simp
  have "repeat_new (Suc (Suc m)) (Suc (Suc d)) prog c w
        = repeat_new (Suc m) (Suc (Suc d)) prog c (counter_set w c i)"
    using new_without_constructor[OF Suc(2) assms Suc(3), where n = d] by simp
  also have "\<dots> = Some (setVariable (counter_set w c i) (NAMESPACE c) (AUTO_INC_VAR (className c))
                       (Some (Scalar (i + 1 + int m + 1))))"
    using Suc(4,5)
    by (intro Suc.IH stored_as_counter_set[OF Suc(2)]) (simp_all add: GET_AUTO_INC_counter_set f)
  finally show ?case
    by (simp add: counter_set_def setVariable_twice add.assoc)
qed

text \<open>
  C6. Two invocations of \<^verbatim>\<open>"new"\<close> can yield the same instance identifier. \<open>Greeter\<close> has no
  constructor and no parent. After 999999 calls of \<^verbatim>\<open>["new"] call Greeter\<close> the counter holds
  999999. The next call stores 1000000 and the one after it 1000001, and \<^verbatim>\<open>format\<close> prints
  both numbers as \<^verbatim>\<open>1e+006\<close>, so both calls return the code of an object with the identifier
  \<^verbatim>\<open>Greeter_1e+006\<close>. After 16777216 calls the counter no longer grows: the sum of 16777216
  and 1 is not a float and is rounded back to 16777216.
\<close>

theorem new_repeats_identifier:
  "repeat_new 999999 2 greeter_program Greeter greeter_world
     = Some (setVariable greeter_world missionNamespace ''Greeter_IDAI'' (Some (Scalar 999999))) \<and>
   class_call 2 greeter_program Greeter (Array [Some (Str ''new'')]) None
       (setVariable greeter_world missionNamespace ''Greeter_IDAI'' (Some (Scalar 999999)))
     = Some (Return (Some (Code (ObjCode ''Greeter_1e+006'' ''Greeter'' missionNamespace)))
               (setVariable greeter_world missionNamespace ''Greeter_IDAI'' (Some (Scalar 1000000)))) \<and>
   class_call 2 greeter_program Greeter (Array [Some (Str ''new'')]) None
       (setVariable greeter_world missionNamespace ''Greeter_IDAI'' (Some (Scalar 1000000)))
     = Some (Return (Some (Code (ObjCode ''Greeter_1e+006'' ''Greeter'' missionNamespace)))
               (setVariable greeter_world missionNamespace ''Greeter_IDAI'' (Some (Scalar 1000001)))) \<and>
   repeat_new 16777216 2 greeter_program Greeter greeter_world
     = Some (setVariable greeter_world missionNamespace ''Greeter_IDAI'' (Some (Scalar 16777216))) \<and>
   class_call 2 greeter_program Greeter (Array [Some (Str ''new'')]) None
       (setVariable greeter_world missionNamespace ''Greeter_IDAI'' (Some (Scalar 16777216)))
     = Some (Return (Some (Code (ObjCode ''Greeter_1.67772e+007'' ''Greeter'' missionNamespace)))
               (setVariable greeter_world missionNamespace ''Greeter_IDAI'' (Some (Scalar 16777216))))"
proof -
  let ?at = "\<lambda>k. setVariable greeter_world missionNamespace ''Greeter_IDAI'' (Some (Scalar k))"
  have nm: "NAMESPACE Greeter = missionNamespace" "className Greeter = ''Greeter''"
    "AUTO_INC_VAR ''Greeter'' = ''Greeter_IDAI''"
    and p: "objParentClass Greeter = None"
    and lv: "list_all (\<lambda>g. sqf_eq (guard_name g) CONSTRUCTOR_METHOD \<longrightarrow> 0 < guard_level g) (guards Greeter)"
    by (simp_all add: Greeter_def macro_defs string_defs)
  have st0: "stored_as greeter_world greeter_program Greeter 0"
    by (simp add: stored_as_def greeter_world_def greeter_program_def register_def Greeter_def)
  have st: "stored_as (?at k) greeter_program Greeter 0" for k
    by (simp add: stored_as_def greeter_world_def greeter_program_def register_def Greeter_def host_defs)
  have c0: "GET_AUTO_INC greeter_world (NAMESPACE Greeter) (className Greeter) = Scalar 0"
    by (simp add: GET_AUTO_INC_def AUTO_INC_VAR_def greeter_world_def register_def Greeter_def no_vars_def
        host_defs)
  have ck: "GET_AUTO_INC (?at k) (NAMESPACE Greeter) (className Greeter) = Scalar k" for k
    by (simp add: GET_AUTO_INC_def nm)
  have n1: "(999999::nat) = Suc 999998" and n2: "(16777216::nat) = Suc 16777215" and two: "(2::nat) = Suc (Suc 0)"
    by simp_all
  have ar: "(0::int) \<le> 0" "0 + int 999998 < 16777216" "0 + int 999998 + 1 = 999999"
    "0 + int 16777215 < 16777216" "0 + int 16777215 + 1 = 16777216"
    by simp_all
  have a: "repeat_new 999999 2 greeter_program Greeter greeter_world = Some (?at 999999)"
    unfolding n1 two
    by (rule repeat_new_counts[OF p lv st0 c0 ar(1,2), where d = 0, unfolded ar(3) nm])
  have b: "repeat_new 16777216 2 greeter_program Greeter greeter_world = Some (?at 16777216)"
    unfolding n2 two
    by (rule repeat_new_counts[OF p lv st0 c0 ar(1,4), where d = 0, unfolded ar(5) nm])
  have new: "class_call 2 greeter_program Greeter (Array [Some (Str ''new'')]) None (?at k)
     = Some (Return (Some (Code (ObjCode (''Greeter_'' @ format_number (f32 (k + 1))) ''Greeter'' missionNamespace)))
               (?at (f32 (k + 1))))" for k
    unfolding two
    using new_without_constructor[OF st[of k] p lv ck[of k], where n = 0]
    by (simp add: object_id_def counter_set_def nm setVariable_twice)
  have f: "f32 (999999 + 1) = 1000000" "f32 (1000000 + 1) = 1000001" "f32 (16777216 + 1) = 16777216"
    by (simp_all add: f32_def f32_nat_def ulp.simps)
  have sn: "show_nat 1000000 = ''1000000''" "show_nat 1000001 = ''1000001''" "show_nat 100000 = ''100000''"
    "show_nat 6 = ''6''" "show_nat 7 = ''7''" "show_nat 16777216 = ''16777216''" "show_nat 167772 = ''167772''"
    by (simp_all add: show_nat.simps digit_char_def)
  have e: "length (show_nat 1000000) - 1 = 6" "length (show_nat 1000001) - 1 = 6"
    "length (show_nat 16777216) - 1 = 7"
    by (simp_all add: sn)
  have r2: "replicate 2 CHR ''0'' = ''00''"
    by (simp add: numeral_2_eq_2)
  have "exponent_form 1000000 = ''1e+006''" "exponent_form 1000001 = ''1e+006''"
    "exponent_form 16777216 = ''1.67772e+007''"
    unfolding exponent_form_def Let_def e
    by (simp_all add: sn strip_zeros_def pad3_def r2)
  then have s: "format_number 1000000 = ''1e+006''" "format_number 1000001 = ''1e+006''"
    "format_number 16777216 = ''1.67772e+007''"
    by (simp_all add: format_number_def)
  note n = new[of 999999] new[of 1000000] new[of 16777216]
  from a n(1,2) b n(3) show ?thesis
    unfolding f s append.simps by - (intro conjI; assumption)
qed

end
